theory Spec2Isabelle
  imports Complex_Main
begin

section \<open>JavaScript numbers\<close>

text \<open>
  The plugin computes with JavaScript numbers. A finite double is idealised as an exact
  real: the operations below do not round. The three non-finite values are kept, because
  the branches of \<^verbatim>\<open>calcGravity\<close> depend on them: \<^verbatim>\<open>undefined + x\<close> and
  \<^verbatim>\<open>parseInt('auto')\<close> are \<^verbatim>\<open>NaN\<close>, a division by a zero \<^verbatim>\<open>density\<close> is infinite, and
  every comparison with \<^verbatim>\<open>NaN\<close> is false. Zero carries no sign: a quotient by zero takes
  the sign of its numerator (the divisor is read as \<^verbatim>\<open>+0\<close>).

  Since a double operation is the exact operation followed by a rounding, what is stated
  of these numbers below is kept to what rounding preserves: which expression of the code
  a value is the result of, comparisons between measured values, and orders that a
  monotone rounding keeps (a product by a fixed factor that is not negative, a difference
  with a subtrahend that is not negative). No statement rests on a sum undoing a
  difference.
\<close>

datatype jsnum = Num real | PInf | NInf | NaN

fun js_neg :: "jsnum \<Rightarrow> jsnum" where
  "js_neg (Num a) = Num (- a)"
| "js_neg PInf = NInf"
| "js_neg NInf = PInf"
| "js_neg NaN = NaN"

fun js_add :: "jsnum \<Rightarrow> jsnum \<Rightarrow> jsnum" where
  "js_add (Num a) (Num b) = Num (a + b)"
| "js_add NaN y = NaN"
| "js_add x NaN = NaN"
| "js_add PInf NInf = NaN"
| "js_add NInf PInf = NaN"
| "js_add PInf y = PInf"
| "js_add NInf y = NInf"
| "js_add (Num a) PInf = PInf"
| "js_add (Num a) NInf = NInf"

definition js_sub :: "jsnum \<Rightarrow> jsnum \<Rightarrow> jsnum" where
  "js_sub x y = js_add x (js_neg y)"

text \<open>The sign of a number as the product and the quotient use it.\<close>

fun js_sign :: "jsnum \<Rightarrow> int" where
  "js_sign (Num a) = (if a < 0 then - 1 else if a = 0 then 0 else 1)"
| "js_sign PInf = 1"
| "js_sign NInf = - 1"
| "js_sign NaN = 0"

definition js_inf :: "int \<Rightarrow> jsnum" where
  "js_inf s = (if s < 0 then NInf else if s = 0 then NaN else PInf)"

fun js_mul :: "jsnum \<Rightarrow> jsnum \<Rightarrow> jsnum" where
  "js_mul (Num a) (Num b) = Num (a * b)"
| "js_mul NaN y = NaN"
| "js_mul x NaN = NaN"
| "js_mul x y = js_inf (js_sign x * js_sign y)"

fun js_div :: "jsnum \<Rightarrow> jsnum \<Rightarrow> jsnum" where
  "js_div (Num a) (Num b) = (if b = 0 then js_inf (js_sign (Num a)) else Num (a / b))"
| "js_div NaN y = NaN"
| "js_div x NaN = NaN"
| "js_div (Num a) y = Num 0"
| "js_div x (Num b) = js_inf (js_sign x * (if b < 0 then - 1 else 1))"
| "js_div x y = NaN"

fun js_lt :: "jsnum \<Rightarrow> jsnum \<Rightarrow> bool" where
  "js_lt (Num a) (Num b) = (a < b)"
| "js_lt NaN y = False"
| "js_lt x NaN = False"
| "js_lt x NInf = False"
| "js_lt PInf y = False"
| "js_lt x y = True"

fun js_le :: "jsnum \<Rightarrow> jsnum \<Rightarrow> bool" where
  "js_le (Num a) (Num b) = (a \<le> b)"
| "js_le NaN y = False"
| "js_le x NaN = False"
| "js_le NInf y = True"
| "js_le x PInf = True"
| "js_le x y = False"

definition js_gt :: "jsnum \<Rightarrow> jsnum \<Rightarrow> bool" where
  "js_gt x y = js_lt y x"

definition js_ge :: "jsnum \<Rightarrow> jsnum \<Rightarrow> bool" where
  "js_ge x y = js_le y x"

text \<open>
  \<^verbatim>\<open>ToNumber\<close> of a property read: a property that the object does not have reads as
  \<^verbatim>\<open>undefined\<close> (here \<open>None\<close>), and \<^verbatim>\<open>undefined\<close> converts to \<^verbatim>\<open>NaN\<close>.
\<close>

fun to_number :: "jsnum option \<Rightarrow> jsnum" where
  "to_number None = NaN"
| "to_number (Some x) = x"

text \<open>Decimal digits of an index, as string concatenation with a number writes them.\<close>

fun string_of_nat :: "nat \<Rightarrow> string" where
  "string_of_nat n =
     (if n < 10 then [''0123456789'' ! n]
      else string_of_nat (n div 10) @ [''0123456789'' ! (n mod 10)])"

declare string_of_nat.simps [simp del]

text \<open>
  \<^verbatim>\<open>parseInt(string)\<close> without a radix: leading white space is skipped, a sign is read, a
  prefix \<^verbatim>\<open>0x\<close> selects the radix 16, and the longest run of digits that follows is the
  value; whatever stands after the digits is ignored, and with no digit at all the value
  is \<^verbatim>\<open>NaN\<close>. So \<^verbatim>\<open>parseInt('12.5px')\<close> is 12, \<^verbatim>\<open>parseInt('-3.7px')\<close> is -3,
  \<^verbatim>\<open>parseInt('2e+06px')\<close> is 2, \<^verbatim>\<open>parseInt('1e-05px')\<close> is 1 and \<^verbatim>\<open>parseInt('auto')\<close> is
  \<^verbatim>\<open>NaN\<close>. (Strings are byte strings here: of the white space of JavaScript only the
  six ASCII characters are skipped.)
\<close>

definition is_space :: "char \<Rightarrow> bool" where
  "is_space c = (c \<in> set [CHR '' '', CHR 0x09, CHR 0x0A, CHR 0x0B, CHR 0x0C, CHR 0x0D])"

definition digit_of :: "char \<Rightarrow> nat option" where
  "digit_of c = map_of (zip ''0123456789abcdefABCDEF'' ([0..<16] @ [10..<16])) c"

definition is_digit :: "nat \<Rightarrow> char \<Rightarrow> bool" where
  "is_digit radix c = (case digit_of c of None \<Rightarrow> False | Some d \<Rightarrow> d < radix)"

definition digits_value :: "nat \<Rightarrow> string \<Rightarrow> nat" where
  "digits_value radix ds =
     foldl (\<lambda>a c. a * radix + (case digit_of c of None \<Rightarrow> 0 | Some d \<Rightarrow> d)) 0 ds"

fun sign_of :: "string \<Rightarrow> bool \<times> string" where
  "sign_of [] = (False, [])"
| "sign_of (c # s) =
     (if c = CHR ''-'' then (True, s) else if c = CHR ''+'' then (False, s) else (False, c # s))"

fun radix_of :: "string \<Rightarrow> nat \<times> string" where
  "radix_of (a # b # s) =
     (if a = CHR ''0'' \<and> (b = CHR ''x'' \<or> b = CHR ''X'') then (16, s) else (10, a # b # s))"
| "radix_of s = (10, s)"

definition parseInt :: "string \<Rightarrow> jsnum" where
  "parseInt s =
     (case sign_of (dropWhile is_space s) of
        (negative, t) \<Rightarrow>
          (case radix_of t of
             (radix, u) \<Rightarrow>
               let ds = takeWhile (is_digit radix) u
               in if ds = [] then NaN
                  else Num ((if negative then - 1 else 1) * real (digits_value radix ds))))"

section \<open>The document\<close>

text \<open>
  The document is the list of its elements in document order; an element's index is its
  handle. Each element holds what the plugin reads and writes: its parent, its classes,
  its \<^verbatim>\<open>gravity-id\<close> attribute and the styles of its own that the plugin sets, the four
  margins and the top padding (a pixel length or the keyword \<^verbatim>\<open>auto\<close>) and the text
  alignment (\<open>None\<close> while the element specifies none).

  What the plugin reads back is not stored: the browser derives it from the current state
  of the document. Every geometry read and every read of a computed margin goes through a
  \<open>renderer\<close>, which gives for each element of a given document its box and the strings
  that \<^verbatim>\<open>css('margin-top')\<close> and the three others return (\<^verbatim>\<open>'20px'\<close>, \<^verbatim>\<open>'12.5px'\<close>, and for a
  large length in some browsers \<^verbatim>\<open>'2e+06px'\<close>). The functions below take the renderer as
  a parameter and hold for every browser layout and serialisation.
\<close>

datatype csslen = Px real | Auto

record element =
  parent_of :: "nat option"
  classes :: "string list"
  gravity_id :: "string option"
  css_margin_top :: csslen
  css_margin_right :: csslen
  css_margin_bottom :: csslen
  css_margin_left :: csslen
  css_padding_top :: csslen
  css_text_align :: "string option"

type_synonym document = "element list"

record box =
  outer_width :: real
  outer_height :: real
  offset_top :: real
  offset_left :: real
  computed_margin_top :: string
  computed_margin_right :: string
  computed_margin_bottom :: string
  computed_margin_left :: string

type_synonym renderer = "document \<Rightarrow> nat \<Rightarrow> box"

text \<open>
  The selectors the plugin builds all have the shape \<^verbatim>\<open>.class[gravity-id=value]\<close>;
  \<open>Sel c v\<close> is that selector. \<^verbatim>\<open>$(selector)\<close> searches the whole document and gives
  the matching elements in document order; a getter reads the first of them, a setter
  writes all of them.
\<close>

datatype selector = Sel string string

fun matches :: "selector \<Rightarrow> element \<Rightarrow> bool" where
  "matches (Sel c v) e = (c \<in> set (classes e) \<and> gravity_id e = Some v)"

definition select :: "document \<Rightarrow> selector \<Rightarrow> nat list" where
  "select doc s = filter (\<lambda>i. matches s (doc ! i)) [0..<length doc]"

definition css_write :: "document \<Rightarrow> selector \<Rightarrow> (element \<Rightarrow> element) \<Rightarrow> document" where
  "css_write doc s f = map (\<lambda>e. if matches s e then f e else e) doc"

text \<open>
  The chain of ancestors of an element, nearest first. In a document in document order
  every parent stands before its children, so the chain is shorter than the document:
  the length of the document is fuel enough.
\<close>

fun ancestors_upto :: "nat \<Rightarrow> document \<Rightarrow> nat \<Rightarrow> nat list" where
  "ancestors_upto 0 doc i = []"
| "ancestors_upto (Suc n) doc i =
     (if i < length doc
      then (case parent_of (doc ! i) of
              None \<Rightarrow> []
            | Some p \<Rightarrow> p # ancestors_upto n doc p)
      else [])"

definition ancestors :: "document \<Rightarrow> nat \<Rightarrow> nat list" where
  "ancestors doc i = ancestors_upto (length doc) doc i"

text \<open>
  \<^verbatim>\<open>css('text-align')\<close> reads the computed value, and the property is inherited: the
  value is the one that the element specifies itself, else the one of its nearest
  ancestor that specifies one, else the initial value \<^verbatim>\<open>start\<close>. What an element
  specifies is what its author gave it until the plugin writes it: the setter writes the
  inline style, which takes precedence (an author rule marked \<^verbatim>\<open>!important\<close> would keep
  it; such rules are not modelled).
\<close>

definition specified_text_align :: "document \<Rightarrow> nat \<Rightarrow> string option" where
  "specified_text_align doc i = (if i < length doc then css_text_align (doc ! i) else None)"

fun first_specified :: "string option list \<Rightarrow> string" where
  "first_specified [] = ''start''"
| "first_specified (None # vs) = first_specified vs"
| "first_specified (Some a # vs) = a"

definition text_align_of :: "document \<Rightarrow> nat \<Rightarrow> string" where
  "text_align_of doc i = first_specified (map (specified_text_align doc) (i # ancestors doc i))"

definition has_class :: "document \<Rightarrow> nat \<Rightarrow> string \<Rightarrow> bool" where
  "has_class doc i c = (i < length doc \<and> c \<in> set (classes (doc ! i)))"

text \<open>\<^verbatim>\<open>this.$element.find('.gravity')\<close>: the descendants of the root with the class.\<close>

definition find_gravity :: "document \<Rightarrow> nat \<Rightarrow> nat list" where
  "find_gravity doc el =
     filter (\<lambda>i. has_class doc i ''gravity'' \<and> el \<in> set (ancestors doc i)) [0..<length doc]"

text \<open>\<^verbatim>\<open>$('.gravity-init .gravitation-node')\<close>, of which the getters read the first.\<close>

definition gravitation_nodes :: "document \<Rightarrow> nat list" where
  "gravitation_nodes doc =
     filter (\<lambda>i. has_class doc i ''gravitation-node'' \<and>
                 list_ex (\<lambda>a. has_class doc a ''gravity-init'') (ancestors doc i))
       [0..<length doc]"

text \<open>\<^verbatim>\<open>addClass\<close> and the \<^verbatim>\<open>gravity-id\<close> attribute, on one element.\<close>

definition addClass :: "document \<Rightarrow> nat \<Rightarrow> string \<Rightarrow> document" where
  "addClass doc i c =
     (if i < length doc \<and> c \<notin> set (classes (doc ! i))
      then doc[i := (doc ! i)\<lparr>classes := classes (doc ! i) @ [c]\<rparr>]
      else doc)"

definition attr_get :: "document \<Rightarrow> nat \<Rightarrow> string option" where
  "attr_get doc i = (if i < length doc then gravity_id (doc ! i) else None)"

definition attr_set :: "document \<Rightarrow> nat \<Rightarrow> string \<Rightarrow> document" where
  "attr_set doc i v =
     (if i < length doc then doc[i := (doc ! i)\<lparr>gravity_id := Some v\<rparr>] else doc)"

section \<open>The plugin's state\<close>

text \<open>
  \<^verbatim>\<open>options.k\<close> and \<^verbatim>\<open>options.density\<close> are numbers the caller may set; \<^verbatim>\<open>options.elements\<close>
  is the list of groups that \<^verbatim>\<open>buildCache\<close> fills and \<^verbatim>\<open>calcGravity\<close> walks, passed here
  as a value of its own. A group is the object \<^verbatim>\<open>{parent, children}\<close> with the \<^verbatim>\<open>data\<close> that
  a pass attaches; a child is the object \<^verbatim>\<open>{id}\<close> with its \<^verbatim>\<open>data\<close>. The overflow guard
  of \<^verbatim>\<open>calcGravity\<close> reads \<^verbatim>\<open>child.height\<close>, a property of the child object itself:
  \<open>height_prop\<close> is that property, which \<^verbatim>\<open>buildCache\<close> never defines.
\<close>

datatype error = TypeError

record options =
  k :: jsnum
  density :: jsnum

record child_data =
  width :: real
  height :: real
  force :: jsnum
  center_top :: real
  center_left :: real
  margin_top :: jsnum
  margin_right :: jsnum
  margin_bottom :: jsnum
  margin_left :: jsnum

record child =
  id_sel :: selector
  height_prop :: "jsnum option"
  cdata :: "child_data option"

record group_data =
  aWidth :: real
  aHeight :: real
  gWidth :: jsnum
  gHeight :: jsnum
  goffset_top :: real
  goffset_left :: real
  gravity_top :: real
  gravity_left :: real
  gcenter_top :: jsnum
  gcenter_left :: jsnum
  padding_top :: jsnum

record group =
  parent :: selector
  children :: "child list"
  gdata :: "group_data option"

section \<open>buildCache\<close>

definition parent_selector :: "nat \<Rightarrow> selector" where
  "parent_selector n = Sel ''gravity-parent'' (string_of_nat n)"

definition child_selector :: "nat \<Rightarrow> selector" where
  "child_selector n = Sel ''gravity'' (string_of_nat n)"

definition new_group :: "nat \<Rightarrow> group" where
  "new_group n = \<lparr>parent = parent_selector n, children = [], gdata = None\<rparr>"

definition new_child :: "nat \<Rightarrow> child" where
  "new_child n = \<lparr>id_sel = child_selector n, height_prop = None, cdata = None\<rparr>"

definition push_child :: "group \<Rightarrow> child \<Rightarrow> group" where
  "push_child g c = g\<lparr>children := children g @ [c]\<rparr>"

text \<open>
  \<^verbatim>\<open>$(element).parent()\<close>: the parent, or the empty selection, on which \<^verbatim>\<open>addClass\<close> and
  the attribute setter do nothing and the attribute getter gives \<^verbatim>\<open>undefined\<close>.
\<close>

definition parent_el :: "document \<Rightarrow> nat \<Rightarrow> nat option" where
  "parent_el doc i =
     (if i < length doc
      then (case parent_of (doc ! i) of
              None \<Rightarrow> None
            | Some p \<Rightarrow> if p < length doc then Some p else None)
      else None)"

text \<open>
  One call of the \<^verbatim>\<open>each\<close> callback (lines 133 to 146), on the state \<open>(doc, elements,
  parents)\<close>. The last statement indexes \<^verbatim>\<open>options.elements[parents]\<close>; where that is
  \<^verbatim>\<open>undefined\<close>, reading its \<^verbatim>\<open>children\<close> throws, and the state is left as it was
  at the throw.
\<close>

type_synonym cache_state = "document \<times> group list \<times> nat"

definition buildCache_each :: "nat \<Rightarrow> nat \<Rightarrow> cache_state \<Rightarrow> (error \<times> cache_state) + cache_state" where
  "buildCache_each index el st =
     (case st of (doc, elements, parents) \<Rightarrow>
        let par = parent_el doc el;
            doc1 = (case par of None \<Rightarrow> doc | Some p \<Rightarrow> addClass doc p ''gravity-parent'');
            doc2 = attr_set doc1 el (string_of_nat index);
            fresh = (case par of None \<Rightarrow> True | Some p \<Rightarrow> attr_get doc2 p = None);
            doc3 = (if fresh
                    then (case par of None \<Rightarrow> doc2
                          | Some p \<Rightarrow> attr_set doc2 p (string_of_nat parents))
                    else doc2);
            elements1 = (if fresh then elements @ [new_group parents] else elements);
            parents1 = (if fresh \<and> parents > 0 then parents + 1 else parents)
        in if parents1 < length elements1
           then Inr (doc3,
                     elements1[parents1 := push_child (elements1 ! parents1) (new_child index)],
                     parents1)
           else Inl (TypeError, (doc3, elements1, parents1)))"

fun buildCache_loop :: "(nat \<times> nat) list \<Rightarrow> cache_state \<Rightarrow> (error \<times> cache_state) + cache_state" where
  "buildCache_loop [] st = Inr st"
| "buildCache_loop ((index, el) # rest) st =
     (case buildCache_each index el st of
        Inl e \<Rightarrow> Inl e
      | Inr st' \<Rightarrow> buildCache_loop rest st')"

definition buildCache :: "document \<Rightarrow> nat \<Rightarrow> group list \<Rightarrow> (error \<times> cache_state) + cache_state" where
  "buildCache doc el elements =
     (let doc0 = addClass doc el ''gravity-init'';
          found = find_gravity doc0 el
      in buildCache_loop (zip [0..<length found] found) (doc0, elements, 0))"

section \<open>calcGravity\<close>

subsection \<open>Measuring (lines 153 to 202)\<close>

text \<open>
  \<^verbatim>\<open>offset()\<close> of an empty selection is \<^verbatim>\<open>undefined\<close>, and reading \<^verbatim>\<open>.top\<close> of it throws:
  a child whose selector matches nothing aborts the pass before anything of it is used.
\<close>

definition measure_child :: "options \<Rightarrow> renderer \<Rightarrow> document \<Rightarrow> child \<Rightarrow> error + child_data" where
  "measure_child opts render doc c =
     (case select doc (id_sel c) of
        [] \<Rightarrow> Inl TypeError
      | e # _ \<Rightarrow>
          let b = render doc e;
              w = outer_width b;
              h = outer_height b;
              f = js_mul (Num h) (k opts)
          in Inr \<lparr>width = w, height = h, force = f,
                  center_top = offset_top b + h / 2,
                  center_left = offset_left b + w / 2,
                  margin_top =
                    js_mul (js_div (parseInt (computed_margin_top b)) (density opts)) f,
                  margin_right =
                    js_mul (js_div (parseInt (computed_margin_right b)) (density opts)) f,
                  margin_bottom =
                    js_mul (js_div (parseInt (computed_margin_bottom b)) (density opts)) f,
                  margin_left =
                    js_mul (js_div (parseInt (computed_margin_left b)) (density opts)) f\<rparr>)"

fun measure_children ::
  "options \<Rightarrow> renderer \<Rightarrow> document \<Rightarrow> child list \<Rightarrow> jsnum \<times> jsnum \<Rightarrow> error + (child list \<times> jsnum \<times> jsnum)" where
  "measure_children opts render doc [] acc = Inr ([], acc)"
| "measure_children opts render doc (c # cs) (gw, gh) =
     (case measure_child opts render doc c of
        Inl e \<Rightarrow> Inl e
      | Inr d \<Rightarrow>
          (case measure_children opts render doc cs
                  (js_add gw (js_add (js_add (margin_left d) (Num (width d))) (margin_right d)),
                   js_add gh (js_add (js_add (margin_top d) (Num (height d))) (margin_bottom d))) of
             Inl e \<Rightarrow> Inl e
           | Inr (cs', acc') \<Rightarrow> Inr (c\<lparr>cdata := Some d\<rparr> # cs', acc')))"

subsection \<open>The vertical force (lines 199 to 218)\<close>

definition vertical_padding :: "jsnum \<Rightarrow> real \<Rightarrow> real \<Rightarrow> real \<Rightarrow> jsnum \<Rightarrow> jsnum" where
  "vertical_padding gH aH grav_top off_top cen_top =
     (let delta_top = js_sub (Num grav_top) cen_top
      in if js_ge gH (Num aH) then Num 0
         else if js_le gH (js_sub (Num aH) delta_top) then js_sub delta_top (Num off_top)
         else js_sub (Num aH) gH)"

subsection \<open>Writing styles\<close>

text \<open>
  \<^verbatim>\<open>css({'padding-top': v})\<close> with a number: jQuery drops \<^verbatim>\<open>NaN\<close> and appends \<^verbatim>\<open>px\<close>; the
  browser keeps the old value where the new one is no valid padding (negative or
  infinite). A margin is written as the string \<^verbatim>\<open>v + 'px'\<close>, which the browser accepts
  when \<open>v\<close> is finite.
\<close>

definition set_padding_top :: "jsnum \<Rightarrow> element \<Rightarrow> element" where
  "set_padding_top v e =
     (case v of Num r \<Rightarrow> if 0 \<le> r then e\<lparr>css_padding_top := Px r\<rparr> else e | _ \<Rightarrow> e)"

definition set_margin_top :: "jsnum \<Rightarrow> element \<Rightarrow> element" where
  "set_margin_top v e = (case v of Num r \<Rightarrow> e\<lparr>css_margin_top := Px r\<rparr> | _ \<Rightarrow> e)"

definition set_margin_right :: "jsnum \<Rightarrow> element \<Rightarrow> element" where
  "set_margin_right v e = (case v of Num r \<Rightarrow> e\<lparr>css_margin_right := Px r\<rparr> | _ \<Rightarrow> e)"

definition set_margin_bottom :: "jsnum \<Rightarrow> element \<Rightarrow> element" where
  "set_margin_bottom v e = (case v of Num r \<Rightarrow> e\<lparr>css_margin_bottom := Px r\<rparr> | _ \<Rightarrow> e)"

definition set_margin_left :: "jsnum \<Rightarrow> element \<Rightarrow> element" where
  "set_margin_left v e = (case v of Num r \<Rightarrow> e\<lparr>css_margin_left := Px r\<rparr> | _ \<Rightarrow> e)"

definition set_margins :: "child_data \<Rightarrow> element \<Rightarrow> element" where
  "set_margins d e =
     set_margin_right (margin_right d)
       (set_margin_left (margin_left d)
          (set_margin_bottom (margin_bottom d)
             (set_margin_top (margin_top d) e)))"

definition set_text_align :: "string \<Rightarrow> element \<Rightarrow> element" where
  "set_text_align a e = e\<lparr>css_text_align := Some a\<rparr>"

subsection \<open>Applying to the DOM (lines 226 to 265)\<close>

definition text_align_for :: "real \<Rightarrow> real \<Rightarrow> string" where
  "text_align_for c G =
     (if c < G / 2 then ''left''
      else if G < (c * 3) / 2 then ''center''
      else ''right'')"

text \<open>
  One call of the second \<^verbatim>\<open>each\<close> callback. The getter \<^verbatim>\<open>css('text-align')\<close> reads the
  computed alignment of the first element that the child's selector matches; each of the
  three setters writes the alignment of every element that it matches. \<open>m\<close> is
  \<^verbatim>\<open>$(child.id).outerHeight()*options.k\<close>,
  read from the document as the earlier writes of the pass left it (of an empty
  selection \<^verbatim>\<open>outerHeight()\<close> is \<^verbatim>\<open>undefined\<close> and the product \<^verbatim>\<open>NaN\<close>). Every read of
  \<^verbatim>\<open>child.data\<close> stands before the first write of the callback, so a child without
  \<^verbatim>\<open>data\<close> throws with the document untouched. The override of the last statement
  assigns an undeclared variable \<^verbatim>\<open>margin\<close>, which nothing else reads.
\<close>

definition overflow_m :: "options \<Rightarrow> renderer \<Rightarrow> document \<Rightarrow> child \<Rightarrow> jsnum" where
  "overflow_m opts render doc c =
     (case select doc (id_sel c) of
        [] \<Rightarrow> NaN
      | e # _ \<Rightarrow> js_mul (Num (outer_height (render doc e))) (k opts))"

definition align_child :: "group_data \<Rightarrow> document \<Rightarrow> child \<Rightarrow> child_data \<Rightarrow> document" where
  "align_child gd doc c d =
     (case select doc (id_sel c) of
        [] \<Rightarrow> doc
      | e # _ \<Rightarrow>
          if text_align_of doc e = ''start''
          then css_write doc (id_sel c)
                 (set_text_align (text_align_for (center_left d) (gravity_left gd)))
          else doc)"

definition apply_child :: "options \<Rightarrow> renderer \<Rightarrow> group_data \<Rightarrow> document \<Rightarrow> child \<Rightarrow> error + document" where
  "apply_child opts render gd doc c =
     (case cdata c of
        None \<Rightarrow> Inl TypeError
      | Some d \<Rightarrow>
          let m = overflow_m opts render doc c;
              doc1 = align_child gd doc c d;
              doc2 = css_write doc1 (id_sel c) (set_margins d)
          in if js_gt (js_add (to_number (height_prop c)) (js_mul m (Num 2))) (Num (aHeight gd))
             then let margin = js_div (js_sub (Num (aHeight gd)) (to_number (height_prop c))) (Num 2)
                  in Inr (css_write doc2 (id_sel c)
                            (\<lambda>e. set_margin_bottom margin (set_margin_top margin e)))
             else Inr doc2)"

fun apply_children ::
  "options \<Rightarrow> renderer \<Rightarrow> group_data \<Rightarrow> document \<Rightarrow> child list \<Rightarrow> (error \<times> document) + document" where
  "apply_children opts render gd doc [] = Inr doc"
| "apply_children opts render gd doc (c # cs) =
     (case apply_child opts render gd doc c of
        Inl e \<Rightarrow> Inl (e, doc)
      | Inr doc' \<Rightarrow> apply_children opts render gd doc' cs)"

subsection \<open>One group, and the pass\<close>

text \<open>
  The outer \<^verbatim>\<open>each\<close> callback for one group. An exception leaves the callback, the
  \<^verbatim>\<open>each\<close> and \<^verbatim>\<open>calcGravity\<close>: the result of the pass is then the exception, the
  document as the writes before the throw left it, and the groups that were laid out
  before it (the object of the group that threw is left partly measured and is not part
  of the result, nor are the groups after it, which the pass never reaches).
\<close>

definition layout_group :: "options \<Rightarrow> renderer \<Rightarrow> document \<Rightarrow> group \<Rightarrow> (error \<times> document) + (document \<times> group)" where
  "layout_group opts render doc g =
     (case select doc (parent g) of
        [] \<Rightarrow> Inl (TypeError, doc)
      | p # _ \<Rightarrow>
          (case gravitation_nodes doc of
             [] \<Rightarrow> Inl (TypeError, doc)
           | n # _ \<Rightarrow>
               (case measure_children opts render doc (children g) (Num 0, Num 0) of
                  Inl e \<Rightarrow> Inl (e, doc)
                | Inr (cs, gw, gh) \<Rightarrow>
                    let pb = render doc p;
                        nb = render doc n;
                        ct = js_add (Num (offset_top pb)) (js_div gh (Num 2));
                        cl = js_add (Num (offset_left pb)) (js_div gw (Num 2));
                        pad = vertical_padding gh (outer_height pb) (offset_top nb) (offset_top pb) ct;
                        gd = \<lparr>aWidth = outer_width pb, aHeight = outer_height pb,
                              gWidth = gw, gHeight = gh,
                              goffset_top = offset_top pb, goffset_left = offset_left pb,
                              gravity_top = offset_top nb, gravity_left = offset_left nb,
                              gcenter_top = ct, gcenter_left = cl,
                              padding_top = pad\<rparr>;
                        doc1 = css_write doc (parent g) (set_padding_top pad)
                    in (case apply_children opts render gd doc1 cs of
                          Inl err \<Rightarrow> Inl err
                        | Inr doc2 \<Rightarrow> Inr (doc2, g\<lparr>children := cs, gdata := Some gd\<rparr>)))))"

fun calcGravity ::
  "options \<Rightarrow> renderer \<Rightarrow> document \<Rightarrow> group list \<Rightarrow> error option \<times> document \<times> group list" where
  "calcGravity opts render doc [] = (None, doc, [])"
| "calcGravity opts render doc (g # gs) =
     (case layout_group opts render doc g of
        Inl (e, doc') \<Rightarrow> (Some e, doc', [])
      | Inr (doc', g') \<Rightarrow>
          (case calcGravity opts render doc' gs of
             (r, doc'', gs') \<Rightarrow> (r, doc'', g' # gs')))"

text \<open>
  \<^verbatim>\<open>init\<close> after \<^verbatim>\<open>setGravitation\<close>: the document already holds the gravitation nodes
  that \<^verbatim>\<open>setGravitation\<close> appended to the root. \<^verbatim>\<open>buildCache\<close> runs, then \<^verbatim>\<open>calcGravity\<close>
  on the groups it left in \<^verbatim>\<open>options.elements\<close>.
\<close>

definition init :: "options \<Rightarrow> renderer \<Rightarrow> document \<Rightarrow> nat \<Rightarrow> group list \<Rightarrow> error option \<times> document \<times> group list" where
  "init opts render doc el elements =
     (case buildCache doc el elements of
        Inl (e, (doc', elements', parents)) \<Rightarrow> (Some e, doc', elements')
      | Inr (doc', elements', parents) \<Rightarrow> calcGravity opts render doc' elements')"

text \<open>The three components of what a run leaves: the exception, the document, the groups.\<close>

definition raised :: "error option \<times> document \<times> group list \<Rightarrow> error option" where
  "raised r = fst r"

definition final_doc :: "error option \<times> document \<times> group list \<Rightarrow> document" where
  "final_doc r = fst (snd r)"

definition final_groups :: "error option \<times> document \<times> group list \<Rightarrow> group list" where
  "final_groups r = snd (snd r)"

section \<open>The policies as the specification words them\<close>

text \<open>
  Step 5 of the specified algorithm: \<open>delta.top\<close> is the attractor's offset minus the
  top of the container plus half the content height, and the padding is the first
  matching of three branches.
\<close>

definition spec_delta_top :: "jsnum \<Rightarrow> jsnum \<Rightarrow> jsnum \<Rightarrow> jsnum" where
  "spec_delta_top attractor_top container_top gH =
     js_sub attractor_top (js_add container_top (js_div gH (Num 2)))"

definition spec_paddingTop :: "jsnum \<Rightarrow> jsnum \<Rightarrow> jsnum \<Rightarrow> jsnum \<Rightarrow> jsnum" where
  "spec_paddingTop gH aH delta_top container_top =
     (if js_ge gH aH then Num 0
      else if js_le gH (js_sub aH delta_top) then js_sub delta_top container_top
      else js_sub aH gH)"

section \<open>Example documents\<close>

text \<open>
  An element with no attribute, zero margins and padding and no text alignment of its
  own; a renderer under which every element keeps its size while its offset follows its
  own top and left margin and the top padding of its parent, and which reports each
  margin as the document holds it, in decimal notation with at most six digits after the
  point; and the default options of the plugin.
\<close>

definition plain :: "nat option \<Rightarrow> string list \<Rightarrow> element" where
  "plain par cls = \<lparr>parent_of = par, classes = cls, gravity_id = None,
     css_margin_top = Px 0, css_margin_right = Px 0, css_margin_bottom = Px 0,
     css_margin_left = Px 0, css_padding_top = Px 0, css_text_align = None\<rparr>"

fun px :: "csslen \<Rightarrow> real" where
  "px (Px r) = r"
| "px Auto = 0"

fun fraction_digits :: "nat \<Rightarrow> real \<Rightarrow> string" where
  "fraction_digits 0 x = []"
| "fraction_digits (Suc n) x =
     (if x = 0 then []
      else (''0123456789'' ! nat \<lfloor>x * 10\<rfloor>)
             # fraction_digits n (x * 10 - real_of_int \<lfloor>x * 10\<rfloor>))"

definition decimal_string :: "real \<Rightarrow> string" where
  "decimal_string r =
     (let a = \<bar>r\<bar>;
          f = fraction_digits 6 (a - real_of_int \<lfloor>a\<rfloor>)
      in (if r < 0 then ''-'' else []) @ string_of_nat (nat \<lfloor>a\<rfloor>)
           @ (if f = [] then [] else CHR ''.'' # f))"

fun css_string :: "csslen \<Rightarrow> string" where
  "css_string (Px r) = decimal_string r @ ''px''"
| "css_string Auto = ''auto''"

definition block_render :: "box list \<Rightarrow> renderer" where
  "block_render bs doc i =
     (bs ! i)\<lparr>offset_top := offset_top (bs ! i) + px (css_margin_top (doc ! i)) +
                   (case parent_of (doc ! i) of None \<Rightarrow> 0
                    | Some p \<Rightarrow> px (css_padding_top (doc ! p))),
              offset_left := offset_left (bs ! i) + px (css_margin_left (doc ! i)),
              computed_margin_top := css_string (css_margin_top (doc ! i)),
              computed_margin_right := css_string (css_margin_right (doc ! i)),
              computed_margin_bottom := css_string (css_margin_bottom (doc ! i)),
              computed_margin_left := css_string (css_margin_left (doc ! i))\<rparr>"

definition bx :: "real \<Rightarrow> real \<Rightarrow> real \<Rightarrow> real \<Rightarrow> box" where
  "bx w h t l = \<lparr>outer_width = w, outer_height = h, offset_top = t, offset_left = l,
                 computed_margin_top = ''0px'', computed_margin_right = ''0px'',
                 computed_margin_bottom = ''0px'', computed_margin_left = ''0px''\<rparr>"

definition default_options :: options where
  "default_options = \<lparr>k = Num 0.618, density = Num 10\<rparr>"

definition node_g1 :: "nat \<Rightarrow> element" where
  "node_g1 r = (plain (Some r) [''gravitation-node''])\<lparr>gravity_id := Some ''g1''\<rparr>"

text \<open>
  A root (element 0), one container of height 150 (element 1) with one \<^verbatim>\<open>.gravity\<close>
  child of height 100 whose authored top margin is 20px (element 2), and the gravitation
  node (element 3).
\<close>

definition doc_single :: document where
  "doc_single = [plain None [], plain (Some 0) [],
                 (plain (Some 1) [''gravity''])\<lparr>css_margin_top := Px 20\<rparr>,
                 node_g1 0]"

definition render_single :: renderer where
  "render_single =
     block_render [bx 800 600 0 0, bx 800 150 0 0, bx 200 100 0 0, bx 0 0 300 400]"




text \<open>Two containers (elements 1 and 3), each with one \<^verbatim>\<open>.gravity\<close> child.\<close>

definition doc_two_parents :: document where
  "doc_two_parents = [plain None [], plain (Some 0) [], plain (Some 1) [''gravity''],
                      plain (Some 0) [], plain (Some 3) [''gravity''], node_g1 0]"


text \<open>
  A document without \<^verbatim>\<open>.gravity\<close> elements, laid out from three groups that the caller
  passes in \<^verbatim>\<open>options.elements\<close>: containers \<^verbatim>\<open>a\<close> (element 1) and \<^verbatim>\<open>c\<close> (element 3)
  exist, each with one child whose authored top margin is 20px; no element matches the
  parent selector of the second group.
\<close>

definition doc_groups :: document where
  "doc_groups =
     [plain None [],
      (plain (Some 0) [''box-parent''])\<lparr>gravity_id := Some ''a''\<rparr>,
      (plain (Some 1) [''box''])\<lparr>gravity_id := Some ''x'', css_margin_top := Px 20\<rparr>,
      (plain (Some 0) [''box-parent''])\<lparr>gravity_id := Some ''c''\<rparr>,
      (plain (Some 3) [''box''])\<lparr>gravity_id := Some ''z'', css_margin_top := Px 20\<rparr>,
      node_g1 0]"

definition three_groups :: "group list" where
  "three_groups =
     [\<lparr>parent = Sel ''box-parent'' ''a'',
       children = [\<lparr>id_sel = Sel ''box'' ''x'', height_prop = None, cdata = None\<rparr>],
       gdata = None\<rparr>,
      \<lparr>parent = Sel ''box-parent'' ''b'',
       children = [\<lparr>id_sel = Sel ''box'' ''y'', height_prop = None, cdata = None\<rparr>],
       gdata = None\<rparr>,
      \<lparr>parent = Sel ''box-parent'' ''c'',
       children = [\<lparr>id_sel = Sel ''box'' ''z'', height_prop = None, cdata = None\<rparr>],
       gdata = None\<rparr>]"

definition render_groups :: renderer where
  "render_groups =
     block_render [bx 800 600 0 0, bx 800 300 0 0, bx 200 100 0 0, bx 800 300 300 0,
                   bx 200 100 300 0, bx 0 0 300 400]"

section \<open>Vocabulary of the proofs\<close>

text \<open>
  The \<^verbatim>\<open>data\<close> object that one group receives, as a function of what was measured:
  the first element \<open>p\<close> of the parent selection, the first gravitation node \<open>n\<close> and
  the two sums of the measuring loop.
\<close>

definition group_data_of ::
  "renderer \<Rightarrow> document \<Rightarrow> nat \<Rightarrow> nat \<Rightarrow> jsnum \<Rightarrow> jsnum \<Rightarrow> group_data" where
  "group_data_of render doc p n gw gh =
     \<lparr>aWidth = outer_width (render doc p), aHeight = outer_height (render doc p),
      gWidth = gw, gHeight = gh,
      goffset_top = offset_top (render doc p), goffset_left = offset_left (render doc p),
      gravity_top = offset_top (render doc n), gravity_left = offset_left (render doc n),
      gcenter_top = js_add (Num (offset_top (render doc p))) (js_div gh (Num 2)),
      gcenter_left = js_add (Num (offset_left (render doc p))) (js_div gw (Num 2)),
      padding_top =
        vertical_padding gh (outer_height (render doc p)) (offset_top (render doc n))
          (offset_top (render doc p))
          (js_add (Num (offset_top (render doc p))) (js_div gh (Num 2)))\<rparr>"

text \<open>
  A selector is aligned when the element that its getter reads no longer has the initial
  text alignment; a document settles into another when the two have the same elements
  with the same parents, classes and attributes, and every element either kept the
  alignment it specifies or specifies one that is not the initial one.
\<close>

definition aligned :: "document \<Rightarrow> selector \<Rightarrow> bool" where
  "aligned doc s =
     (case select doc s of [] \<Rightarrow> True | e # _ \<Rightarrow> text_align_of doc e \<noteq> ''start'')"

definition keeps_alignment :: "string option \<Rightarrow> string option \<Rightarrow> bool" where
  "keeps_alignment v v' = (v' = v \<or> (case v' of None \<Rightarrow> False | Some a \<Rightarrow> a \<noteq> ''start''))"

definition settles :: "document \<Rightarrow> document \<Rightarrow> bool" where
  "settles doc doc' =
     (length doc' = length doc \<and>
      (\<forall>i<length doc. classes (doc' ! i) = classes (doc ! i)
          \<and> gravity_id (doc' ! i) = gravity_id (doc ! i)
          \<and> parent_of (doc' ! i) = parent_of (doc ! i)
          \<and> keeps_alignment (css_text_align (doc ! i)) (css_text_align (doc' ! i))))"

definition child_selectors :: "group list \<Rightarrow> selector list" where
  "child_selectors gs = concat (map (\<lambda>g. map id_sel (children g)) gs)"

text \<open>The document that a loop or a group leaves, whether it threw or not.\<close>

definition left_doc :: "(error \<times> document) + document \<Rightarrow> document" where
  "left_doc r = (case r of Inl (e, d) \<Rightarrow> d | Inr d \<Rightarrow> d)"

definition left_doc_group :: "(error \<times> document) + (document \<times> group) \<Rightarrow> document" where
  "left_doc_group r = (case r of Inl (e, d) \<Rightarrow> d | Inr (d, g) \<Rightarrow> d)"


text \<open>The three components of the state that \<^verbatim>\<open>buildCache\<close> leaves.\<close>

definition cached_doc :: "(error \<times> cache_state) + cache_state \<Rightarrow> document" where
  "cached_doc r = (case r of Inl (e, (d, es, p)) \<Rightarrow> d | Inr (d, es, p) \<Rightarrow> d)"

definition cached_elements :: "(error \<times> cache_state) + cache_state \<Rightarrow> group list" where
  "cached_elements r = (case r of Inl (e, (d, es, p)) \<Rightarrow> es | Inr (d, es, p) \<Rightarrow> es)"


text \<open>
  The document and the groups that \<^verbatim>\<open>buildCache\<close> leaves for these examples, the
  passes over them, and the data that the passes compute. \<open>render_at l\<close> places the
  child of \<open>doc_single\<close> (width 20, height 50) at left offset \<open>l\<close> in a container of
  height 400, with the gravitation node at left offset 100.
\<close>

definition first_pass_single :: "error option \<times> document \<times> group list" where
  "first_pass_single = init default_options render_single doc_single 0 []"

definition second_pass_single :: "error option \<times> document \<times> group list" where
  "second_pass_single =
     calcGravity default_options render_single
       (final_doc first_pass_single) (final_groups first_pass_single)"

definition cached_single :: document where
  "cached_single = cached_doc (buildCache doc_single 0 [])"

definition cached_groups :: document where
  "cached_groups = cached_doc (buildCache doc_groups 0 three_groups)"


definition render_at :: "real \<Rightarrow> renderer" where
  "render_at l =
     block_render [bx 800 600 0 0, bx 800 400 0 0, bx 20 50 0 l, bx 0 0 300 100]"


definition pass_at :: "real \<Rightarrow> error option \<times> document \<times> group list" where
  "pass_at l = init default_options (render_at l) doc_single 0 []"

definition pass_a :: "error option \<times> document \<times> group list" where
  "pass_a = calcGravity default_options render_groups cached_groups [three_groups ! 0]"

definition gdata_a :: group_data where
  "gdata_a = group_data_of render_groups cached_groups 1 5 (Num 200) (Num 223.6)"

section \<open>Selections and style writes\<close>

lemma length_css_write [simp]: "length (css_write doc s f) = length doc"
  by (simp add: css_write_def)

lemma nth_css_write:
  "i < length doc \<Longrightarrow>
   css_write doc s f ! i = (if matches s (doc ! i) then f (doc ! i) else doc ! i)"
  by (simp add: css_write_def)

lemma select_in_range: "i \<in> set (select doc s) \<Longrightarrow> i < length doc \<and> matches s (doc ! i)"
  by (auto simp: select_def)

lemma select_first: "select doc s = e # es \<Longrightarrow> e < length doc \<and> matches s (doc ! e)"
  using select_in_range [of e doc s] by simp

lemma set_margin_top_fields [simp]:
  "parent_of (set_margin_top v e) = parent_of e"
  "classes (set_margin_top v e) = classes e"
  "gravity_id (set_margin_top v e) = gravity_id e"
  "css_margin_right (set_margin_top v e) = css_margin_right e"
  "css_margin_bottom (set_margin_top v e) = css_margin_bottom e"
  "css_margin_left (set_margin_top v e) = css_margin_left e"
  "css_padding_top (set_margin_top v e) = css_padding_top e"
  "css_text_align (set_margin_top v e) = css_text_align e"
  by (simp_all add: set_margin_top_def split: jsnum.split)

lemma set_margin_right_fields [simp]:
  "parent_of (set_margin_right v e) = parent_of e"
  "classes (set_margin_right v e) = classes e"
  "gravity_id (set_margin_right v e) = gravity_id e"
  "css_margin_top (set_margin_right v e) = css_margin_top e"
  "css_margin_bottom (set_margin_right v e) = css_margin_bottom e"
  "css_margin_left (set_margin_right v e) = css_margin_left e"
  "css_padding_top (set_margin_right v e) = css_padding_top e"
  "css_text_align (set_margin_right v e) = css_text_align e"
  by (simp_all add: set_margin_right_def split: jsnum.split)

lemma set_margin_bottom_fields [simp]:
  "parent_of (set_margin_bottom v e) = parent_of e"
  "classes (set_margin_bottom v e) = classes e"
  "gravity_id (set_margin_bottom v e) = gravity_id e"
  "css_margin_top (set_margin_bottom v e) = css_margin_top e"
  "css_margin_right (set_margin_bottom v e) = css_margin_right e"
  "css_margin_left (set_margin_bottom v e) = css_margin_left e"
  "css_padding_top (set_margin_bottom v e) = css_padding_top e"
  "css_text_align (set_margin_bottom v e) = css_text_align e"
  by (simp_all add: set_margin_bottom_def split: jsnum.split)

lemma set_margin_left_fields [simp]:
  "parent_of (set_margin_left v e) = parent_of e"
  "classes (set_margin_left v e) = classes e"
  "gravity_id (set_margin_left v e) = gravity_id e"
  "css_margin_top (set_margin_left v e) = css_margin_top e"
  "css_margin_right (set_margin_left v e) = css_margin_right e"
  "css_margin_bottom (set_margin_left v e) = css_margin_bottom e"
  "css_padding_top (set_margin_left v e) = css_padding_top e"
  "css_text_align (set_margin_left v e) = css_text_align e"
  by (simp_all add: set_margin_left_def split: jsnum.split)

lemma set_margins_fields [simp]:
  "parent_of (set_margins d e) = parent_of e"
  "classes (set_margins d e) = classes e"
  "gravity_id (set_margins d e) = gravity_id e"
  "css_padding_top (set_margins d e) = css_padding_top e"
  "css_text_align (set_margins d e) = css_text_align e"
  by (simp_all add: set_margins_def)

lemma set_padding_top_fields [simp]:
  "parent_of (set_padding_top v e) = parent_of e"
  "classes (set_padding_top v e) = classes e"
  "gravity_id (set_padding_top v e) = gravity_id e"
  "css_margin_top (set_padding_top v e) = css_margin_top e"
  "css_margin_right (set_padding_top v e) = css_margin_right e"
  "css_margin_bottom (set_padding_top v e) = css_margin_bottom e"
  "css_margin_left (set_padding_top v e) = css_margin_left e"
  "css_text_align (set_padding_top v e) = css_text_align e"
  by (simp_all add: set_padding_top_def split: jsnum.split)

lemma set_text_align_fields [simp]:
  "parent_of (set_text_align a e) = parent_of e"
  "classes (set_text_align a e) = classes e"
  "gravity_id (set_text_align a e) = gravity_id e"
  "css_margin_top (set_text_align a e) = css_margin_top e"
  "css_margin_right (set_text_align a e) = css_margin_right e"
  "css_margin_bottom (set_text_align a e) = css_margin_bottom e"
  "css_margin_left (set_text_align a e) = css_margin_left e"
  "css_padding_top (set_text_align a e) = css_padding_top e"
  "css_text_align (set_text_align a e) = Some a"
  by (simp_all add: set_text_align_def)

lemma matches_cong: "classes e' = classes e \<Longrightarrow> gravity_id e' = gravity_id e \<Longrightarrow> matches s e' = matches s e"
  by (cases s) simp

text \<open>A style write changes neither the classes nor the attribute, so every selection stays.\<close>

lemma select_css_write:
  assumes "\<And>e. classes (f e) = classes e" "\<And>e. gravity_id (f e) = gravity_id e"
  shows "select (css_write doc s f) s' = select doc s'"
proof -
  have "matches s' (css_write doc s f ! i) = matches s' (doc ! i)" if "i < length doc" for i
    using that assms by (cases s') (simp add: nth_css_write)
  then show ?thesis
    by (auto simp: select_def intro!: filter_cong)
qed

section \<open>Text alignment\<close>

lemma align_child_length [simp]: "length (align_child gd doc c d) = length doc"
  by (simp add: align_child_def split: list.split)

text \<open>An element that specifies an alignment has that alignment.\<close>

lemma text_align_of_own:
  "i < length doc \<Longrightarrow> css_text_align (doc ! i) = Some a \<Longrightarrow> text_align_of doc i = a"
  by (simp add: text_align_of_def specified_text_align_def)

text \<open>
  The alignment step reads the first element of the selection and writes every element
  of it.
\<close>

lemma align_child_nth:
  assumes "select doc (id_sel c) = e # es" "x < length doc"
  shows "css_text_align (align_child gd doc c d ! x) =
           (if matches (id_sel c) (doc ! x) \<and> text_align_of doc e = ''start''
            then Some (text_align_for (center_left d) (gravity_left gd))
            else css_text_align (doc ! x))"
  using assms by (simp add: align_child_def nth_css_write)

lemma apply_child_text_align:
  assumes "apply_child opts render gd doc c = Inr doc'" "i < length doc"
  shows "\<exists>d. cdata c = Some d \<and> length doc' = length doc \<and>
           css_text_align (doc' ! i) = css_text_align (align_child gd doc c d ! i)"
  using assms
  by (auto simp: apply_child_def Let_def nth_css_write split: option.splits if_splits)

text \<open>
  Claim C5, as amended. With the attractor at horizontal offset 100, a start-aligned
  child with horizontal center 40 receives \<^verbatim>\<open>left\<close>, one with center 60 receives
  \<^verbatim>\<open>right\<close> (100 is not below 90) and one with center 80 receives \<^verbatim>\<open>center\<close> (100 is
  below 120).
\<close>

theorem C5_alignment_at_100:
  "text_align_of doc_single 2 = ''start''
   \<and> map_option gravity_left (gdata (final_groups (pass_at 30) ! 0)) = Some 100
   \<and> map_option center_left (cdata (children (final_groups (pass_at 30) ! 0) ! 0)) = Some 40
   \<and> text_align_of (final_doc (pass_at 30)) 2 = ''left''
   \<and> map_option gravity_left (gdata (final_groups (pass_at 50) ! 0)) = Some 100
   \<and> map_option center_left (cdata (children (final_groups (pass_at 50) ! 0) ! 0)) = Some 60
   \<and> text_align_of (final_doc (pass_at 50)) 2 = ''right''
   \<and> map_option gravity_left (gdata (final_groups (pass_at 70) ! 0)) = Some 100
   \<and> map_option center_left (cdata (children (final_groups (pass_at 70) ! 0) ! 0)) = Some 80
   \<and> text_align_of (final_doc (pass_at 70)) 2 = ''center''"
  unfolding pass_at_def by code_simp

text \<open>
  The claim as stated gives \<^verbatim>\<open>center\<close> to the child with center 60 and \<^verbatim>\<open>right\<close> to
  the child with center 80; the pass gives neither.
\<close>

theorem C5_alignment_counterexample:
  "text_align_of doc_single 2 = ''start''
   \<and> map_option gravity_left (gdata (final_groups (pass_at 50) ! 0)) = Some 100
   \<and> map_option center_left (cdata (children (final_groups (pass_at 50) ! 0) ! 0)) = Some 60
   \<and> text_align_of (final_doc (pass_at 50)) 2 \<noteq> ''center''
   \<and> map_option center_left (cdata (children (final_groups (pass_at 70) ! 0) ! 0)) = Some 80
   \<and> text_align_of (final_doc (pass_at 70)) 2 \<noteq> ''right''"
  unfolding pass_at_def by code_simp

section \<open>Measuring\<close>




text \<open>What \<^verbatim>\<open>parseInt\<close> reads in the strings that browsers report for a margin.\<close>

lemma parseInt_of_margins:
  "parseInt ''20px'' = Num 20 \<and> parseInt ''12.5px'' = Num 12 \<and> parseInt ''-3.7px'' = Num (- 3)
   \<and> parseInt ''2e+06px'' = Num 2 \<and> parseInt ''1e-05px'' = Num 1 \<and> parseInt ''auto'' = NaN"
  by code_simp





section \<open>What the steps leave untouched\<close>

lemma css_write_field:
  assumes "\<And>e. F (f e) = F e" "i < length doc"
  shows "F (css_write doc s f ! i) = F (doc ! i)"
  using assms by (simp add: nth_css_write)

lemma align_child_fields:
  assumes "i < length doc"
  shows "classes (align_child gd doc c d ! i) = classes (doc ! i)"
    and "gravity_id (align_child gd doc c d ! i) = gravity_id (doc ! i)"
    and "parent_of (align_child gd doc c d ! i) = parent_of (doc ! i)"
    and "css_padding_top (align_child gd doc c d ! i) = css_padding_top (doc ! i)"
  using assms by (simp_all add: align_child_def nth_css_write split: list.split)

lemma apply_child_fields:
  assumes "apply_child opts render gd doc c = Inr doc'"
  shows "length doc' = length doc"
    and "i < length doc \<Longrightarrow> classes (doc' ! i) = classes (doc ! i)"
    and "i < length doc \<Longrightarrow> gravity_id (doc' ! i) = gravity_id (doc ! i)"
    and "i < length doc \<Longrightarrow> parent_of (doc' ! i) = parent_of (doc ! i)"
    and "i < length doc \<Longrightarrow> css_padding_top (doc' ! i) = css_padding_top (doc ! i)"
  using assms
  by (auto simp: apply_child_def Let_def nth_css_write align_child_fields
           split: option.splits if_splits)

lemma apply_children_fields:
  "apply_children opts render gd doc cs = Inr doc' \<Longrightarrow>
   length doc' = length doc \<and>
   (\<forall>i<length doc. classes (doc' ! i) = classes (doc ! i)
       \<and> gravity_id (doc' ! i) = gravity_id (doc ! i)
       \<and> parent_of (doc' ! i) = parent_of (doc ! i)
       \<and> css_padding_top (doc' ! i) = css_padding_top (doc ! i))"
proof (induction cs arbitrary: doc)
  case Nil
  then show ?case by simp
next
  case (Cons c cs)
  from Cons.prems obtain d1 where s: "apply_child opts render gd doc c = Inr d1"
    and r: "apply_children opts render gd d1 cs = Inr doc'"
    by (auto split: sum.splits)
  from Cons.IH [OF r] apply_child_fields [OF s] show ?case by simp
qed

section \<open>One group\<close>

text \<open>Once every child has its data, the second loop cannot throw.\<close>

lemma measure_children_data:
  "measure_children opts render doc cs acc = Inr (cs', acc') \<Longrightarrow>
   list_all (\<lambda>c. cdata c \<noteq> None) cs' \<and> map id_sel cs' = map id_sel cs"
proof (induction cs arbitrary: acc cs' acc')
  case Nil
  then show ?case by simp
next
  case (Cons c cs)
  obtain gw gh where acc: "acc = (gw, gh)" by (cases acc)
  from Cons.prems show ?case
    unfolding acc by (auto split: sum.splits prod.splits dest: Cons.IH)
qed

lemma apply_children_total:
  "list_all (\<lambda>c. cdata c \<noteq> None) cs \<Longrightarrow> \<exists>doc'. apply_children opts render gd doc cs = Inr doc'"
proof (induction cs arbitrary: doc)
  case Nil
  then show ?case by simp
next
  case (Cons c cs)
  from Cons.prems obtain d where d: "cdata c = Some d" by auto
  have "\<exists>d1. apply_child opts render gd doc c = Inr d1"
    by (simp add: apply_child_def Let_def d)
  then obtain d1 where "apply_child opts render gd doc c = Inr d1" ..
  with Cons show ?case by simp
qed

lemma layout_group_Inr:
  assumes "layout_group opts render doc g = Inr (doc', g')"
  shows "\<exists>p ps n ns cs gw gh.
           select doc (parent g) = p # ps
         \<and> gravitation_nodes doc = n # ns
         \<and> measure_children opts render doc (children g) (Num 0, Num 0) = Inr (cs, gw, gh)
         \<and> g' = g\<lparr>children := cs, gdata := Some (group_data_of render doc p n gw gh)\<rparr>
         \<and> apply_children opts render (group_data_of render doc p n gw gh)
              (css_write doc (parent g)
                 (set_padding_top (padding_top (group_data_of render doc p n gw gh)))) cs
            = Inr doc'"
  using assms
  by (auto simp: layout_group_def Let_def group_data_of_def
           split: list.splits sum.splits prod.splits)

lemma layout_group_measured:
  assumes "select doc (parent g) = p # ps" "gravitation_nodes doc = n # ns"
    and "measure_children opts render doc (children g) (Num 0, Num 0) = Inr (cs, gw, gh)"
  shows "layout_group opts render doc g =
           (case apply_children opts render (group_data_of render doc p n gw gh)
                   (css_write doc (parent g)
                      (set_padding_top (padding_top (group_data_of render doc p n gw gh)))) cs of
              Inl err \<Rightarrow> Inl err
            | Inr doc2 \<Rightarrow>
                Inr (doc2, g\<lparr>children := cs,
                               gdata := Some (group_data_of render doc p n gw gh)\<rparr>))"
  using assms by (simp add: layout_group_def Let_def group_data_of_def split: sum.splits)

lemma measure_children_Inl:
  "measure_children opts render doc cs acc = Inl err \<Longrightarrow>
   err = TypeError \<and> list_ex (\<lambda>c. select doc (id_sel c) = []) cs"
proof (induction cs arbitrary: acc)
  case Nil
  then show ?case by simp
next
  case (Cons c cs)
  obtain gw gh where acc: "acc = (gw, gh)" by (cases acc)
  show ?case
  proof (cases "measure_child opts render doc c")
    case (Inl e)
    then have "select doc (id_sel c) = []" "e = TypeError"
      by (auto simp: measure_child_def Let_def split: list.splits)
    with Cons.prems Inl show ?thesis unfolding acc by simp
  next
    case (Inr d)
    with Cons.prems Cons.IH show ?thesis
      unfolding acc by (auto split: sum.splits prod.splits)
  qed
qed

text \<open>
  Only an empty selection makes a group throw, no measured size does; and every read
  of a group that can throw stands before its first write, so a group that throws
  leaves the document as it found it.
\<close>

lemma layout_group_throws:
  assumes "layout_group opts render doc g = Inl (err, doc')"
  shows "err = TypeError \<and> doc' = doc \<and>
         (select doc (parent g) = [] \<or> gravitation_nodes doc = [] \<or>
          list_ex (\<lambda>c. select doc (id_sel c) = []) (children g))"
proof (cases "select doc (parent g) = [] \<or> gravitation_nodes doc = []")
  case True
  with assms show ?thesis
    by (auto simp: layout_group_def split: list.splits)
next
  case False
  then obtain p ps n ns where sel: "select doc (parent g) = p # ps"
    and nodes: "gravitation_nodes doc = n # ns"
    by (auto simp: neq_Nil_conv)
  show ?thesis
  proof (cases "measure_children opts render doc (children g) (Num 0, Num 0)")
    case (Inl e)
    with assms sel nodes have "err = e" "doc' = doc" by (simp_all add: layout_group_def)
    with measure_children_Inl [OF Inl] show ?thesis by simp
  next
    case (Inr r)
    obtain cs gw gh where r: "r = (cs, gw, gh)" by (cases r)
    note m = Inr [unfolded r]
    from measure_children_data [OF m] apply_children_total
    obtain d1 where "apply_children opts render (group_data_of render doc p n gw gh)
                       (css_write doc (parent g)
                          (set_padding_top (padding_top (group_data_of render doc p n gw gh)))) cs
                     = Inr d1"
      by blast
    with layout_group_measured [OF sel nodes m] assms show ?thesis by simp
  qed
qed

lemma layout_group_Inl:
  "layout_group opts render doc g = Inl (err, doc') \<Longrightarrow> doc' = doc"
  using layout_group_throws by blast

section \<open>The vertical padding\<close>

lemma vertical_padding_spec:
  "vertical_padding gh aH gt ot (js_add (Num ot) (js_div gh (Num 2))) =
   spec_paddingTop gh (Num aH) (spec_delta_top (Num gt) (Num ot) gh) (Num ot)"
  by (simp add: vertical_padding_def spec_paddingTop_def spec_delta_top_def Let_def)

lemma set_padding_top_Num: "0 \<le> r \<Longrightarrow> css_padding_top (set_padding_top (Num r) e) = Px r"
  by (simp add: set_padding_top_def)

text \<open>
  Claim C2. For every group that the pass lays out, the \<^verbatim>\<open>padding.top\<close> of its data
  is the first-match three-branch policy of the specification, applied to the measured
  content height, container height, attractor offset and container offset (with
  \<open>delta.top\<close> as the specification defines it); that value is handed to
  \<^verbatim>\<open>css({'padding-top': ...})\<close> for the elements of the parent selection, whose style holds
  it whenever it is a valid padding (a number that is not negative).
\<close>

theorem C2_vertical_padding_policy:
  assumes "layout_group opts render doc g = Inr (doc', g')"
  shows "\<exists>d p ps n ns.
           gdata g' = Some d
         \<and> select doc (parent g) = p # ps
         \<and> gravitation_nodes doc = n # ns
         \<and> aHeight d = outer_height (render doc p)
         \<and> goffset_top d = offset_top (render doc p)
         \<and> gravity_top d = offset_top (render doc n)
         \<and> measure_children opts render doc (children g) (Num 0, Num 0)
             = Inr (children g', gWidth d, gHeight d)
         \<and> padding_top d =
             spec_paddingTop (gHeight d) (Num (aHeight d))
               (spec_delta_top (Num (gravity_top d)) (Num (goffset_top d)) (gHeight d))
               (Num (goffset_top d))
         \<and> (\<forall>i r. i < length doc \<and> matches (parent g) (doc ! i) \<and> padding_top d = Num r \<and> 0 \<le> r
                \<longrightarrow> css_padding_top (doc' ! i) = Px r)"
proof -
  from layout_group_Inr [OF assms] obtain p ps n ns cs gw gh where
    sel: "select doc (parent g) = p # ps" and
    nodes: "gravitation_nodes doc = n # ns" and
    meas: "measure_children opts render doc (children g) (Num 0, Num 0) = Inr (cs, gw, gh)" and
    g': "g' = g\<lparr>children := cs, gdata := Some (group_data_of render doc p n gw gh)\<rparr>" and
    app: "apply_children opts render (group_data_of render doc p n gw gh)
            (css_write doc (parent g)
               (set_padding_top (padding_top (group_data_of render doc p n gw gh)))) cs
          = Inr doc'"
    by blast
  define d where "d = group_data_of render doc p n gw gh"
  have pad: "padding_top d =
               spec_paddingTop (gHeight d) (Num (aHeight d))
                 (spec_delta_top (Num (gravity_top d)) (Num (goffset_top d)) (gHeight d))
                 (Num (goffset_top d))"
    by (simp add: d_def group_data_of_def vertical_padding_spec)
  have written: "css_padding_top (doc' ! i) = Px r"
    if "i < length doc" "matches (parent g) (doc ! i)" "padding_top d = Num r" "0 \<le> r" for i r
  proof -
    have "css_padding_top (doc' ! i) =
            css_padding_top (css_write doc (parent g) (set_padding_top (padding_top d)) ! i)"
      using apply_children_fields [OF app] that(1) by (simp add: d_def)
    also have "\<dots> = Px r"
      using that by (simp add: nth_css_write set_padding_top_Num)
    finally show ?thesis .
  qed
  have "gdata g' = Some d" "children g' = cs" by (simp_all add: g' d_def)
  moreover have "aHeight d = outer_height (render doc p)"
    "goffset_top d = offset_top (render doc p)" "gravity_top d = offset_top (render doc n)"
    "gWidth d = gw" "gHeight d = gh"
    by (simp_all add: d_def group_data_of_def)
  ultimately show ?thesis using sel nodes meas pad written by blast
qed

text \<open>Witness for C2: the first of the three groups over \<open>doc_groups\<close>; its padding is 76.4.\<close>

theorem C2_witness:
  "layout_group default_options render_groups cached_groups (three_groups ! 0)
     = Inr (final_doc pass_a, final_groups pass_a ! 0)
   \<and> map_option padding_top (gdata (final_groups pass_a ! 0)) = Some (Num 76.4)
   \<and> css_padding_top (final_doc pass_a ! 1) = Px 76.4"
proof -
  have h: "layout_group default_options render_groups cached_groups (three_groups ! 0)
             = Inr (final_doc pass_a, final_groups pass_a ! 0)"
    unfolding pass_a_def cached_groups_def by code_simp
  have pd: "map_option padding_top (gdata (final_groups pass_a ! 0)) = Some (Num 76.4)"
    unfolding pass_a_def cached_groups_def by code_simp
  have l: "1 < length cached_groups" unfolding cached_groups_def by code_simp
  have m: "matches (parent (three_groups ! 0)) (cached_groups ! 1)"
    unfolding cached_groups_def by code_simp
  from C2_vertical_padding_policy [OF h] obtain d where
    d: "gdata (final_groups pass_a ! 0) = Some d" and
    w: "\<forall>i r. i < length cached_groups \<and> matches (parent (three_groups ! 0)) (cached_groups ! i)
              \<and> padding_top d = Num r \<and> 0 \<le> r
            \<longrightarrow> css_padding_top (final_doc pass_a ! i) = Px r"
    by blast
  from pd d have "padding_top d = Num 76.4" by simp
  with w [rule_format, of 1 "76.4"] l m have "css_padding_top (final_doc pass_a ! 1) = Px 76.4"
    by simp
  with h pd show ?thesis by blast
qed

section \<open>The bound on the padding\<close>

lemma js_lt_not_ge: "js_lt x y \<Longrightarrow> \<not> js_ge x y"
  by (cases x; cases y) (simp_all add: js_ge_def)

text \<open>
  Taking a number that is not negative from \<open>x\<close> gives at most \<open>x\<close>; rounding the
  difference to the nearest double keeps that, since \<open>x\<close> is a double itself.
\<close>

lemma js_sub_le:
  assumes "0 \<le> r" "x \<noteq> NaN"
  shows "js_le (js_sub x (Num r)) x"
  using assms by (cases x) (simp_all add: js_sub_def)

lemma js_le_not_NaN: "js_le x y \<Longrightarrow> x \<noteq> NaN \<and> y \<noteq> NaN"
  by (cases x; cases y) simp_all

lemma js_sub_NaN: "js_sub x y \<noteq> NaN \<Longrightarrow> y \<noteq> NaN"
  by (cases x; cases y) (simp_all add: js_sub_def)

text \<open>
  Claim C9, as amended. For every group laid out with \<open>containerOffset.top \<ge> 0\<close>: if
  \<open>gHeight \<ge> aHeight\<close> then \<open>paddingTop = 0\<close>, whatever the content exceeds the container
  by. If \<open>gHeight < aHeight\<close>, then either \<open>gHeight \<le> aHeight - delta.top\<close> and
  \<open>paddingTop = delta.top - containerOffset.top\<close>, which is at most \<open>delta.top\<close>; or
  \<open>paddingTop\<close> is the slack \<open>aHeight - gHeight\<close> itself. The differences are the ones the
  code computes: no sum of \<open>gHeight\<close> and \<open>paddingTop\<close> is compared with \<open>aHeight\<close>, which
  the rounding of the subtractions can exceed.
\<close>

theorem C9_padding_within_container:
  assumes "layout_group opts render doc g = Inr (doc', g')"
    and "gdata g' = Some d"
    and "0 \<le> goffset_top d"
  shows "(js_ge (gHeight d) (Num (aHeight d)) \<longrightarrow> padding_top d = Num 0)
       \<and> (js_lt (gHeight d) (Num (aHeight d))
            \<and> js_le (gHeight d)
                 (js_sub (Num (aHeight d))
                    (spec_delta_top (Num (gravity_top d)) (Num (goffset_top d)) (gHeight d)))
          \<longrightarrow> padding_top d =
                js_sub (spec_delta_top (Num (gravity_top d)) (Num (goffset_top d)) (gHeight d))
                  (Num (goffset_top d))
              \<and> js_le (padding_top d)
                  (spec_delta_top (Num (gravity_top d)) (Num (goffset_top d)) (gHeight d)))
       \<and> (js_lt (gHeight d) (Num (aHeight d))
            \<and> \<not> js_le (gHeight d)
                 (js_sub (Num (aHeight d))
                    (spec_delta_top (Num (gravity_top d)) (Num (goffset_top d)) (gHeight d)))
          \<longrightarrow> padding_top d = js_sub (Num (aHeight d)) (gHeight d))"
proof -
  let ?delta = "spec_delta_top (Num (gravity_top d)) (Num (goffset_top d)) (gHeight d)"
  from layout_group_Inr [OF assms(1)] assms(2) obtain p n gw gh where
    d: "d = group_data_of render doc p n gw gh"
    by auto
  have pad: "padding_top d =
               spec_paddingTop (gHeight d) (Num (aHeight d)) ?delta (Num (goffset_top d))"
    by (simp add: d group_data_of_def vertical_padding_spec)
  have one: "padding_top d = Num 0" if "js_ge (gHeight d) (Num (aHeight d))"
    using that by (simp add: pad spec_paddingTop_def)
  have two: "padding_top d = js_sub ?delta (Num (goffset_top d))
             \<and> js_le (padding_top d) ?delta"
    if "js_lt (gHeight d) (Num (aHeight d))"
       "js_le (gHeight d) (js_sub (Num (aHeight d)) ?delta)"
  proof -
    have eq: "padding_top d = js_sub ?delta (Num (goffset_top d))"
      using that js_lt_not_ge [OF that(1)] by (simp add: pad spec_paddingTop_def)
    have "?delta \<noteq> NaN"
      using js_le_not_NaN [OF that(2)] js_sub_NaN by blast
    from js_sub_le [OF assms(3) this] eq show ?thesis by simp
  qed
  have three: "padding_top d = js_sub (Num (aHeight d)) (gHeight d)"
    if "js_lt (gHeight d) (Num (aHeight d))"
       "\<not> js_le (gHeight d) (js_sub (Num (aHeight d)) ?delta)"
    using that js_lt_not_ge [OF that(1)] by (simp add: pad spec_paddingTop_def)
  from one two three show ?thesis by blast
qed

text \<open>
  Witness for C9: the first group over \<open>doc_groups\<close>, content 223.6 in a container of 300
  with \<open>delta.top = 188.2\<close>; the padding is the slack.
\<close>

theorem C9_witness:
  "layout_group default_options render_groups cached_groups (three_groups ! 0)
     = Inr (final_doc pass_a, final_groups pass_a ! 0)
   \<and> gdata (final_groups pass_a ! 0) = Some gdata_a
   \<and> 0 \<le> goffset_top gdata_a
   \<and> js_lt (gHeight gdata_a) (Num (aHeight gdata_a))
   \<and> \<not> js_le (gHeight gdata_a)
          (js_sub (Num (aHeight gdata_a))
             (spec_delta_top (Num (gravity_top gdata_a)) (Num (goffset_top gdata_a))
                (gHeight gdata_a)))
   \<and> padding_top gdata_a = js_sub (Num (aHeight gdata_a)) (gHeight gdata_a)"
proof -
  have h: "layout_group default_options render_groups cached_groups (three_groups ! 0)
             = Inr (final_doc pass_a, final_groups pass_a ! 0)"
    unfolding pass_a_def cached_groups_def by code_simp
  have g: "gdata (final_groups pass_a ! 0) = Some gdata_a"
    unfolding pass_a_def cached_groups_def gdata_a_def by code_simp
  have o: "0 \<le> goffset_top gdata_a"
    unfolding cached_groups_def gdata_a_def by code_simp
  have lt: "js_lt (gHeight gdata_a) (Num (aHeight gdata_a))"
    unfolding cached_groups_def gdata_a_def by code_simp
  have nle: "\<not> js_le (gHeight gdata_a)
                 (js_sub (Num (aHeight gdata_a))
                    (spec_delta_top (Num (gravity_top gdata_a)) (Num (goffset_top gdata_a))
                       (gHeight gdata_a)))"
    unfolding cached_groups_def gdata_a_def by code_simp
  from C9_padding_within_container [OF h g o] lt nle
  have "padding_top gdata_a = js_sub (Num (aHeight gdata_a)) (gHeight gdata_a)"
    by blast
  with h g o lt nle show ?thesis by blast
qed

text \<open>
  The claim as stated (\<open>gHeight + paddingTop \<le> aHeight\<close> in all branches) fails in the
  first branch: on \<open>doc_single\<close> the content is 223.6 high, the container 150, the
  padding 0.
\<close>

theorem C9_overflow_counterexample:
  "map_option gHeight (gdata (final_groups first_pass_single ! 0)) = Some (Num 223.6)
   \<and> map_option aHeight (gdata (final_groups first_pass_single ! 0)) = Some 150
   \<and> map_option goffset_top (gdata (final_groups first_pass_single ! 0)) = Some 0
   \<and> map_option padding_top (gdata (final_groups first_pass_single ! 0)) = Some (Num 0)
   \<and> \<not> js_le (js_add (Num 223.6) (Num 0)) (Num 150)"
  unfolding first_pass_single_def by code_simp

section \<open>An exception ends the pass\<close>

lemma calcGravity_append:
  "calcGravity opts render doc gs1 = (None, doc1, gs1') \<Longrightarrow>
   calcGravity opts render doc (gs1 @ gs2) =
     (case calcGravity opts render doc1 gs2 of (r, doc2, gs2') \<Rightarrow> (r, doc2, gs1' @ gs2'))"
proof (induction gs1 arbitrary: doc gs1')
  case Nil
  then show ?case by (simp split: prod.splits)
next
  case (Cons g gs)
  from Cons.prems obtain d1 g1 gs1 where
    s: "layout_group opts render doc g = Inr (d1, g1)" and
    r: "calcGravity opts render d1 gs = (None, doc1, gs1)" and
    e: "gs1' = g1 # gs1"
    by (auto split: sum.splits prod.splits)
  from Cons.IH [OF r] s e show ?case by (simp split: prod.splits)
qed

text \<open>
  Claim C7, as amended. When a measurement of a group fails (its parent selector, a
  child selector or the gravitation-node selector matches no element), the \<^verbatim>\<open>TypeError\<close>
  leaves \<^verbatim>\<open>calcGravity\<close>: the groups before it have been laid out and are the only
  ones laid out, the step of the failing group has written nothing, the document is the
  one those earlier groups left, and the result is that one exception.
\<close>

theorem C7_exception_ends_the_pass:
  assumes "calcGravity opts render doc gs1 = (None, doc1, gs1')"
    and "layout_group opts render doc1 g = Inl (err, doc2)"
  shows "err = TypeError
       \<and> (select doc1 (parent g) = [] \<or> gravitation_nodes doc1 = [] \<or>
          list_ex (\<lambda>c. select doc1 (id_sel c) = []) (children g))
       \<and> doc2 = doc1
       \<and> calcGravity opts render doc (gs1 @ g # gs2) = (Some err, doc1, gs1')"
proof -
  have same: "doc2 = doc1" by (rule layout_group_Inl [OF assms(2)])
  have "calcGravity opts render doc1 (g # gs2) = (Some err, doc1, [])"
    using assms(2) same by simp
  with calcGravity_append [OF assms(1), of "g # gs2"]
  have "calcGravity opts render doc (gs1 @ g # gs2) = (Some err, doc1, gs1')" by simp
  with layout_group_throws [OF assms(2)] same show ?thesis by blast
qed

text \<open>Witness for C7: the three groups over \<open>doc_groups\<close>, of which the second fails.\<close>

theorem C7_witness:
  "calcGravity default_options render_groups cached_groups [three_groups ! 0]
     = (None, final_doc pass_a, final_groups pass_a)
   \<and> layout_group default_options render_groups (final_doc pass_a) (three_groups ! 1)
     = Inl (TypeError, final_doc pass_a)
   \<and> select (final_doc pass_a) (parent (three_groups ! 1)) = []
   \<and> calcGravity default_options render_groups cached_groups
        ([three_groups ! 0] @ three_groups ! 1 # [three_groups ! 2])
     = (Some TypeError, final_doc pass_a, final_groups pass_a)"
proof -
  have h1: "calcGravity default_options render_groups cached_groups [three_groups ! 0]
              = (None, final_doc pass_a, final_groups pass_a)"
    unfolding pass_a_def cached_groups_def by code_simp
  have h2: "layout_group default_options render_groups (final_doc pass_a) (three_groups ! 1)
              = Inl (TypeError, final_doc pass_a)"
    unfolding pass_a_def cached_groups_def by code_simp
  have h3: "select (final_doc pass_a) (parent (three_groups ! 1)) = []"
    unfolding pass_a_def cached_groups_def by code_simp
  from C7_exception_ends_the_pass [OF h1 h2, of "[three_groups ! 2]"] h1 h2 h3
  show ?thesis by blast
qed

text \<open>
  The claim as stated fails on these three groups: the parent selector of the second
  matches nothing, the third group is well formed, and the pass ends with the exception,
  only the first group laid out and the child of the third group still at its authored
  margin of 20px.
\<close>

theorem C7_isolation_counterexample:
  "raised (init default_options render_groups doc_groups 0 three_groups) = Some TypeError
   \<and> select cached_groups (parent (three_groups ! 1)) = []
   \<and> select cached_groups (parent (three_groups ! 2)) = [3]
   \<and> select cached_groups (id_sel (children (three_groups ! 2) ! 0)) = [4]
   \<and> css_margin_top (final_doc (init default_options render_groups doc_groups 0 three_groups) ! 2)
       = Px 123.6
   \<and> css_margin_top (final_doc (init default_options render_groups doc_groups 0 three_groups) ! 4)
       = Px 20
   \<and> map gdata (final_groups (init default_options render_groups doc_groups 0 three_groups))
       = [Some gdata_a]"
  unfolding cached_groups_def gdata_a_def by code_simp

section \<open>The overflow guard\<close>

text \<open>
  For a child object without a \<^verbatim>\<open>height\<close> property, as \<^verbatim>\<open>buildCache\<close> makes them, the
  guard is false whatever was measured, and the step ends with the margins of the force.
\<close>

lemma overflow_guard_undefined:
  assumes "height_prop c = None" "cdata c = Some d"
  shows "apply_child opts render gd doc c
         = Inr (css_write (align_child gd doc c d) (id_sel c) (set_margins d))"
  using assms by (simp add: apply_child_def Let_def js_gt_def)

lemma new_child_no_height: "height_prop (new_child n) = None"
  by (simp add: new_child_def)

text \<open>
  Claim C1 (the code departs from it). The claim: a child with
  \<open>childHeight + 2 * (childHeight * k) > aHeight\<close> ends the pass with top and bottom
  margins \<open>(aHeight - childHeight) / 2\<close>. The guard of line 250 reads \<^verbatim>\<open>child.height\<close>,
  which no child object has (the height is \<^verbatim>\<open>child.data.height\<close>): the sum is \<^verbatim>\<open>NaN\<close>, the
  comparison false, and the force-derived margins stay. On \<open>doc_single\<close> the container is
  150 high and the child 100, so \<open>100 + 2 * 61.8 > 150\<close>; the claim gives margins of 25,
  the pass leaves 123.6 at the top and 0 at the bottom.
\<close>

theorem C1_overflow_guard_reads_undefined:
  "raised first_pass_single = None
   \<and> outer_height (render_single (final_doc first_pass_single) 1) = 150
   \<and> outer_height (render_single (final_doc first_pass_single) 2) = 100
   \<and> js_gt (js_add (Num 100) (js_mul (Num 2) (js_mul (Num 100) (k default_options)))) (Num 150)
   \<and> css_margin_top (final_doc first_pass_single ! 2) = Px 123.6
   \<and> css_margin_bottom (final_doc first_pass_single ! 2) = Px 0
   \<and> Px ((150 - 100) / 2) = Px 25"
  unfolding first_pass_single_def by code_simp

section \<open>A second pass leaves the text alignment\<close>

lemma keeps_alignment_refl: "keeps_alignment v v"
  by (simp add: keeps_alignment_def)

lemma keeps_alignment_trans:
  "keeps_alignment a b \<Longrightarrow> keeps_alignment b c \<Longrightarrow> keeps_alignment a c"
  by (auto simp: keeps_alignment_def split: option.splits)

lemma settles_refl: "settles doc doc"
  by (simp add: settles_def keeps_alignment_refl)

lemma settles_nth:
  assumes "settles doc doc'" "i < length doc"
  shows "classes (doc' ! i) = classes (doc ! i)"
    and "gravity_id (doc' ! i) = gravity_id (doc ! i)"
    and "parent_of (doc' ! i) = parent_of (doc ! i)"
    and "keeps_alignment (css_text_align (doc ! i)) (css_text_align (doc' ! i))"
  using assms by (simp_all add: settles_def)

lemma settles_length: "settles doc doc' \<Longrightarrow> length doc' = length doc"
  by (simp add: settles_def)

lemma settles_trans:
  assumes "settles a b" "settles b c"
  shows "settles a c"
proof -
  have l: "length b = length a" "length c = length a"
    using assms by (simp_all add: settles_def)
  have "classes (c ! i) = classes (a ! i) \<and> gravity_id (c ! i) = gravity_id (a ! i)
      \<and> parent_of (c ! i) = parent_of (a ! i)
      \<and> keeps_alignment (css_text_align (a ! i)) (css_text_align (c ! i))"
    if "i < length a" for i
  proof -
    have ib: "i < length b" using that l by simp
    from settles_nth [OF assms(1) that] settles_nth [OF assms(2) ib] keeps_alignment_trans
    show ?thesis by metis
  qed
  with l show ?thesis by (simp add: settles_def)
qed

lemma settles_matches:
  "settles doc doc' \<Longrightarrow> i < length doc \<Longrightarrow> matches s (doc' ! i) = matches s (doc ! i)"
  by (cases s) (simp add: settles_def)

lemma settles_select:
  assumes "settles doc doc'"
  shows "select doc' s = select doc s"
proof -
  have "matches s (doc' ! i) = matches s (doc ! i)" if "i < length doc" for i
    using that assms by (rule settles_matches [rotated])
  moreover have "length doc' = length doc" using assms by (simp add: settles_def)
  ultimately show ?thesis by (auto simp: select_def intro!: filter_cong)
qed

text \<open>
  Settling keeps the chain of ancestors of every element, and with it every computed
  alignment that is not the initial one.
\<close>

lemma ancestors_upto_settles:
  assumes "settles doc doc'"
  shows "ancestors_upto n doc' i = ancestors_upto n doc i"
proof (induction n arbitrary: i)
  case 0
  show ?case by simp
next
  case (Suc n)
  have len: "length doc' = length doc" by (rule settles_length [OF assms])
  show ?case
  proof (cases "i < length doc")
    case True
    from settles_nth(3) [OF assms True] True len Suc.IH show ?thesis
      by (simp split: option.split)
  next
    case False
    with len show ?thesis by simp
  qed
qed

lemma ancestors_settles: "settles doc doc' \<Longrightarrow> ancestors doc' i = ancestors doc i"
  by (simp add: ancestors_def ancestors_upto_settles settles_length)

lemma specified_settles:
  assumes "settles doc doc'"
  shows "keeps_alignment (specified_text_align doc i) (specified_text_align doc' i)"
proof (cases "i < length doc")
  case True
  with settles_nth(4) [OF assms True] settles_length [OF assms] show ?thesis
    by (simp add: specified_text_align_def)
next
  case False
  with settles_length [OF assms] show ?thesis
    by (simp add: specified_text_align_def keeps_alignment_refl)
qed

lemma first_specified_keeps:
  "list_all2 keeps_alignment vs vs' \<Longrightarrow> first_specified vs \<noteq> ''start'' \<Longrightarrow>
   first_specified vs' \<noteq> ''start''"
proof (induction rule: list_all2_induct)
  case Nil
  then show ?case by simp
next
  case (Cons v vs v' vs')
  then show ?case
    by (cases v; cases v') (auto simp: keeps_alignment_def)
qed

lemma list_all2_map_same:
  "(\<And>x. P (f x) (g x)) \<Longrightarrow> list_all2 P (map f xs) (map g xs)"
  by (induction xs) simp_all

lemma text_align_of_settles:
  assumes "settles doc doc'" "text_align_of doc i \<noteq> ''start''"
  shows "text_align_of doc' i \<noteq> ''start''"
proof -
  have "list_all2 keeps_alignment
          (map (specified_text_align doc) (i # ancestors doc i))
          (map (specified_text_align doc') (i # ancestors doc i))"
    by (rule list_all2_map_same) (rule specified_settles [OF assms(1)])
  from first_specified_keeps [OF this] assms(2) show ?thesis
    by (simp add: text_align_of_def ancestors_settles [OF assms(1)])
qed

lemma aligned_settles:
  assumes "aligned doc s" "settles doc doc'"
  shows "aligned doc' s"
proof (cases "select doc s")
  case Nil
  then show ?thesis by (simp add: aligned_def settles_select [OF assms(2)])
next
  case (Cons e es)
  with assms(1) have "text_align_of doc e \<noteq> ''start''" by (simp add: aligned_def)
  from text_align_of_settles [OF assms(2) this] Cons show ?thesis
    by (simp add: aligned_def settles_select [OF assms(2)])
qed

lemma text_align_for_not_start: "text_align_for c G \<noteq> ''start''"
  by (simp add: text_align_for_def)

lemma same_text_align:
  assumes "length doc' = length doc"
    and "\<And>i. i < length doc \<Longrightarrow> css_text_align (doc' ! i) = css_text_align (doc ! i)"
  shows "map css_text_align doc' = map css_text_align doc"
  using assms by (simp add: list_eq_iff_nth_eq)

lemma css_write_settles:
  assumes "\<And>e. classes (f e) = classes e" "\<And>e. gravity_id (f e) = gravity_id e"
    and "\<And>e. parent_of (f e) = parent_of e"
    and "\<And>e. keeps_alignment (css_text_align e) (css_text_align (f e))"
  shows "settles doc (css_write doc s f)"
  using assms by (simp add: settles_def nth_css_write keeps_alignment_refl)

lemma align_child_settles: "settles doc (align_child gd doc c d)"
  by (auto simp: align_child_def settles_refl text_align_for_not_start keeps_alignment_def
           intro!: css_write_settles split: list.split)

lemma align_child_aligned: "aligned (align_child gd doc c d) (id_sel c)"
proof (cases "select doc (id_sel c)")
  case Nil
  then show ?thesis by (simp add: aligned_def align_child_def)
next
  case (Cons e es)
  have sel: "select (align_child gd doc c d) (id_sel c) = e # es"
    using settles_select [OF align_child_settles] Cons by simp
  have e: "e < length doc" "matches (id_sel c) (doc ! e)"
    using select_first [OF Cons] by simp_all
  have "text_align_of (align_child gd doc c d) e \<noteq> ''start''"
  proof (cases "text_align_of doc e = ''start''")
    case True
    with align_child_nth [OF Cons e(1)] e(2)
    have "css_text_align (align_child gd doc c d ! e)
            = Some (text_align_for (center_left d) (gravity_left gd))"
      by simp
    from text_align_of_own [OF _ this] e(1) show ?thesis
      by (simp add: text_align_for_not_start)
  next
    case False
    then have "align_child gd doc c d = doc" by (simp add: align_child_def Cons)
    with False show ?thesis by simp
  qed
  with sel show ?thesis by (simp add: aligned_def)
qed

lemma align_child_idle: "aligned doc (id_sel c) \<Longrightarrow> align_child gd doc c d = doc"
  by (simp add: aligned_def align_child_def split: list.splits)

text \<open>
  The margin writes after the alignment, as one function of the aligned document; they
  leave every text alignment.
\<close>

lemma apply_child_after_align:
  assumes "apply_child opts render gd doc c = Inr doc'"
  shows "\<exists>d. cdata c = Some d \<and> settles (align_child gd doc c d) doc'
           \<and> map css_text_align doc' = map css_text_align (align_child gd doc c d)"
proof -
  from assms obtain d where d: "cdata c = Some d"
    by (auto simp: apply_child_def split: option.splits)
  have len: "length doc' = length (align_child gd doc c d)"
    using apply_child_fields(1) [OF assms] by simp
  have ta: "css_text_align (doc' ! i) = css_text_align (align_child gd doc c d ! i)"
    if "i < length (align_child gd doc c d)" for i
    using apply_child_text_align [OF assms, of i] that d by simp
  have "classes (doc' ! i) = classes (align_child gd doc c d ! i)
      \<and> gravity_id (doc' ! i) = gravity_id (align_child gd doc c d ! i)
      \<and> parent_of (doc' ! i) = parent_of (align_child gd doc c d ! i)"
    if "i < length (align_child gd doc c d)" for i
  proof -
    have "i < length doc" using that by simp
    from apply_child_fields(2,3,4) [OF assms this] align_child_fields(1,2,3) [OF this]
    show ?thesis by simp
  qed
  with len ta have "settles (align_child gd doc c d) doc'"
    by (simp add: settles_def keeps_alignment_refl)
  with d same_text_align [OF len ta] show ?thesis by blast
qed

lemma apply_child_settles:
  assumes "apply_child opts render gd doc c = Inr doc'"
  shows "settles doc doc' \<and> aligned doc' (id_sel c)"
proof -
  from apply_child_after_align [OF assms] obtain d where
    s: "settles (align_child gd doc c d) doc'" by blast
  from settles_trans [OF align_child_settles s] aligned_settles [OF align_child_aligned s]
  show ?thesis by blast
qed

lemma apply_child_idle:
  assumes "apply_child opts render gd doc c = Inr doc'" "aligned doc (id_sel c)"
  shows "map css_text_align doc' = map css_text_align doc"
  using apply_child_after_align [OF assms(1)] align_child_idle [OF assms(2)] by auto

lemma apply_children_settles:
  "apply_children opts render gd doc cs = Inr doc' \<Longrightarrow>
   settles doc doc' \<and> list_all (aligned doc') (map id_sel cs)"
proof (induction cs arbitrary: doc)
  case Nil
  then show ?case by (simp add: settles_refl)
next
  case (Cons c cs)
  from Cons.prems obtain d1 where s: "apply_child opts render gd doc c = Inr d1"
    and r: "apply_children opts render gd d1 cs = Inr doc'"
    by (auto split: sum.splits)
  from apply_child_settles [OF s] have s1: "settles doc d1" and a1: "aligned d1 (id_sel c)"
    by blast+
  from Cons.IH [OF r] have s2: "settles d1 doc'" and a2: "list_all (aligned doc') (map id_sel cs)"
    by blast+
  from settles_trans [OF s1 s2] aligned_settles [OF a1 s2] a2 show ?case by simp
qed

lemma apply_children_idle:
  "list_all (aligned doc) (map id_sel cs) \<Longrightarrow>
   map css_text_align (left_doc (apply_children opts render gd doc cs)) = map css_text_align doc"
proof (induction cs arbitrary: doc)
  case Nil
  then show ?case by (simp add: left_doc_def)
next
  case (Cons c cs)
  show ?case
  proof (cases "apply_child opts render gd doc c")
    case (Inl e)
    then show ?thesis by (simp add: left_doc_def)
  next
    case (Inr d1)
    from Cons.prems have a: "aligned doc (id_sel c)" and
      rest: "list_all (aligned doc) (map id_sel cs)" by simp_all
    from apply_child_settles [OF Inr] have s: "settles doc d1" by blast
    have "list_all (aligned d1) (map id_sel cs)"
      using rest aligned_settles [OF _ s] by (auto simp: list_all_iff)
    from Cons.IH [OF this] apply_child_idle [OF Inr a] Inr show ?thesis by simp
  qed
qed

lemma padding_write_settles: "settles doc (css_write doc s (set_padding_top v))"
  by (rule css_write_settles) (simp_all add: keeps_alignment_refl)

lemma padding_write_text_align:
  "map css_text_align (css_write doc s (set_padding_top v)) = map css_text_align doc"
  by (rule same_text_align) (simp_all add: nth_css_write)

lemma list_all_aligned_settles:
  "list_all (aligned doc) ss \<Longrightarrow> settles doc doc' \<Longrightarrow> list_all (aligned doc') ss"
  using aligned_settles by (auto simp: list_all_iff)

lemma layout_group_settles:
  assumes "layout_group opts render doc g = Inr (doc', g')"
  shows "settles doc doc' \<and> list_all (aligned doc') (map id_sel (children g))
       \<and> map id_sel (children g') = map id_sel (children g)"
proof -
  from layout_group_Inr [OF assms] obtain p n cs gw gh where
    meas: "measure_children opts render doc (children g) (Num 0, Num 0) = Inr (cs, gw, gh)" and
    g': "g' = g\<lparr>children := cs, gdata := Some (group_data_of render doc p n gw gh)\<rparr>" and
    app: "apply_children opts render (group_data_of render doc p n gw gh)
            (css_write doc (parent g)
               (set_padding_top (padding_top (group_data_of render doc p n gw gh)))) cs
          = Inr doc'"
    by blast
  from measure_children_data [OF meas] have ids: "map id_sel cs = map id_sel (children g)"
    by simp
  from apply_children_settles [OF app] ids
  have "settles (css_write doc (parent g)
                   (set_padding_top (padding_top (group_data_of render doc p n gw gh)))) doc'"
    and "list_all (aligned doc') (map id_sel (children g))"
    by simp_all
  with settles_trans [OF padding_write_settles] ids g' show ?thesis by simp
qed

lemma layout_group_idle:
  assumes "list_all (aligned doc) (map id_sel (children g))"
  shows "map css_text_align (left_doc_group (layout_group opts render doc g))
         = map css_text_align doc"
proof (cases "layout_group opts render doc g")
  case (Inl a)
  obtain err d where "a = (err, d)" by (cases a)
  with Inl layout_group_Inl [of opts render doc g err d] show ?thesis
    by (simp add: left_doc_group_def)
next
  case (Inr b)
  obtain doc' g' where b: "b = (doc', g')" by (cases b)
  from layout_group_Inr [OF Inr [unfolded b]] obtain p n cs gw gh where
    meas: "measure_children opts render doc (children g) (Num 0, Num 0) = Inr (cs, gw, gh)" and
    app: "apply_children opts render (group_data_of render doc p n gw gh)
            (css_write doc (parent g)
               (set_padding_top (padding_top (group_data_of render doc p n gw gh)))) cs
          = Inr doc'"
    by blast
  from measure_children_data [OF meas] have ids: "map id_sel cs = map id_sel (children g)"
    by simp
  have "list_all (aligned (css_write doc (parent g)
                    (set_padding_top (padding_top (group_data_of render doc p n gw gh)))))
          (map id_sel cs)"
    using list_all_aligned_settles [OF assms padding_write_settles] ids by simp
  from apply_children_idle [OF this, of opts render "group_data_of render doc p n gw gh"] app
  have "map css_text_align doc' =
          map css_text_align (css_write doc (parent g)
             (set_padding_top (padding_top (group_data_of render doc p n gw gh))))"
    by (simp add: left_doc_def)
  then show ?thesis using Inr b by (simp add: left_doc_group_def padding_write_text_align)
qed

lemma calcGravity_settles:
  "calcGravity opts render doc gs = (None, doc1, gs1) \<Longrightarrow>
   settles doc doc1 \<and> list_all (aligned doc1) (child_selectors gs)
   \<and> child_selectors gs1 = child_selectors gs"
proof (induction gs arbitrary: doc gs1)
  case Nil
  then show ?case by (simp add: settles_refl child_selectors_def)
next
  case (Cons g gs)
  from Cons.prems obtain d1 g1 gs' where
    s: "layout_group opts render doc g = Inr (d1, g1)" and
    r: "calcGravity opts render d1 gs = (None, doc1, gs')" and
    e: "gs1 = g1 # gs'"
    by (auto split: sum.splits prod.splits)
  from layout_group_settles [OF s] have s1: "settles doc d1"
    and a1: "list_all (aligned d1) (map id_sel (children g))"
    and i1: "map id_sel (children g1) = map id_sel (children g)"
    by blast+
  from Cons.IH [OF r] have s2: "settles d1 doc1"
    and a2: "list_all (aligned doc1) (child_selectors gs)"
    and i2: "child_selectors gs' = child_selectors gs"
    by blast+
  from settles_trans [OF s1 s2] list_all_aligned_settles [OF a1 s2] a2 i1 i2 e
  show ?case by (simp add: child_selectors_def)
qed

lemma calcGravity_idle:
  "list_all (aligned doc) (child_selectors gs) \<Longrightarrow>
   map css_text_align (final_doc (calcGravity opts render doc gs)) = map css_text_align doc"
proof (induction gs arbitrary: doc)
  case Nil
  then show ?case by (simp add: final_doc_def)
next
  case (Cons g gs)
  from Cons.prems have a: "list_all (aligned doc) (map id_sel (children g))"
    and rest: "list_all (aligned doc) (child_selectors gs)"
    by (simp_all add: child_selectors_def)
  show ?case
  proof (cases "layout_group opts render doc g")
    case (Inl b)
    obtain err d where "b = (err, d)" by (cases b)
    with Inl layout_group_Inl [of opts render doc g err d] show ?thesis
      by (simp add: final_doc_def)
  next
    case (Inr b)
    obtain d1 g1 where b: "b = (d1, g1)" by (cases b)
    from layout_group_settles [OF Inr [unfolded b]] have s: "settles doc d1" by blast
    from layout_group_idle [OF a, of opts render] Inr b
    have t: "map css_text_align d1 = map css_text_align doc"
      by (simp add: left_doc_group_def)
    obtain r d2 gs2 where c: "calcGravity opts render d1 gs = (r, d2, gs2)"
      by (cases "calcGravity opts render d1 gs")
    from Cons.IH [OF list_all_aligned_settles [OF rest s]] t Inr b c
    show ?thesis by (simp add: final_doc_def)
  qed
qed

text \<open>
  Claim C6, as amended. After a pass that completed, a second pass over the document
  and the groups that the first one left, under any renderer, leaves the text alignment
  of every element as the first pass left it. (The margins are recomputed from the
  margins that the first pass wrote, and the padding from their sum: neither is a fixed
  point in general.)
\<close>

theorem C6_alignment_is_a_fixed_point:
  assumes "calcGravity opts render doc gs = (None, doc1, gs1)"
  shows "map css_text_align (final_doc (calcGravity opts render2 doc1 gs1))
         = map css_text_align doc1"
proof -
  from calcGravity_settles [OF assms]
  have "list_all (aligned doc1) (child_selectors gs1)" by simp
  then show ?thesis by (rule calcGravity_idle)
qed

text \<open>Witness for C6: two passes over \<open>doc_single\<close>.\<close>

theorem C6_witness:
  "calcGravity default_options render_single cached_single
       (cached_elements (buildCache doc_single 0 []))
     = (None, final_doc first_pass_single, final_groups first_pass_single)
   \<and> map css_text_align (final_doc second_pass_single)
       = map css_text_align (final_doc first_pass_single)"
proof -
  have h: "calcGravity default_options render_single cached_single
             (cached_elements (buildCache doc_single 0 []))
           = (None, final_doc first_pass_single, final_groups first_pass_single)"
    unfolding cached_single_def first_pass_single_def by code_simp
  from C6_alignment_is_a_fixed_point [OF h, of render_single] h show ?thesis
    by (simp add: second_pass_single_def)
qed

text \<open>
  The claim as stated fails for the margins: the first pass over \<open>doc_single\<close> writes a
  top margin of 123.6px, the second reads it back as 123 and writes 760.14px.
\<close>

theorem C6_margins_counterexample:
  "raised first_pass_single = None \<and> raised second_pass_single = None
   \<and> css_margin_top (final_doc first_pass_single ! 2) = Px 123.6
   \<and> css_margin_top (final_doc second_pass_single ! 2) = Px 760.14"
  unfolding second_pass_single_def first_pass_single_def by code_simp

section \<open>The text alignment of one child\<close>







section \<open>The groups that buildCache leaves\<close>


lemma length_addClass [simp]: "length (addClass doc i c) = length doc"
  by (simp add: addClass_def)

lemma length_attr_set [simp]: "length (attr_set doc i v) = length doc"
  by (simp add: attr_set_def)

lemma addClass_fields [simp]:
  "x < length doc \<Longrightarrow> gravity_id (addClass doc i c ! x) = gravity_id (doc ! x)"
  "x < length doc \<Longrightarrow> parent_of (addClass doc i c ! x) = parent_of (doc ! x)"
  by (simp_all add: addClass_def nth_list_update)

lemma attr_set_fields [simp]:
  "x < length doc \<Longrightarrow> parent_of (attr_set doc i v ! x) = parent_of (doc ! x)"
  "x < length doc \<Longrightarrow> gravity_id (attr_set doc i v ! x) = (if x = i then Some v else gravity_id (doc ! x))"
  by (simp_all add: attr_set_def nth_list_update)









section \<open>The attribute that buildCache writes to a parent\<close>





lemma find_gravity_range: "e \<in> set (find_gravity doc el) \<Longrightarrow> e < length doc"
  by (simp add: find_gravity_def)







text \<open>
  Claim C8 (the code departs from it). The claim: distinct parents never receive the
  same identifier, and each identifier resolves to one element. On \<open>doc_two_parents\<close>
  the containers 1 and 3 both receive the \<^verbatim>\<open>gravity-id\<close> 0 (the counter \<^verbatim>\<open>parents\<close> is
  only incremented when it is already positive), both groups carry the same parent
  selector, that selector matches both containers, and both children are in the first
  group.
\<close>

theorem C8_parents_share_an_identifier:
  "buildCache doc_two_parents 0 []
     = Inr (cached_doc (buildCache doc_two_parents 0 []),
            cached_elements (buildCache doc_two_parents 0 []), 0)
   \<and> find_gravity (addClass doc_two_parents 0 ''gravity-init'') 0 = [2, 4]
   \<and> parent_el doc_two_parents 2 = Some 1
   \<and> parent_el doc_two_parents 4 = Some 3
   \<and> gravity_id (cached_doc (buildCache doc_two_parents 0 []) ! 1) = Some ''0''
   \<and> gravity_id (cached_doc (buildCache doc_two_parents 0 []) ! 3) = Some ''0''
   \<and> map parent (cached_elements (buildCache doc_two_parents 0 []))
       = [Sel ''gravity-parent'' ''0'', Sel ''gravity-parent'' ''0'']
   \<and> map id_sel (children (cached_elements (buildCache doc_two_parents 0 []) ! 0))
       = [Sel ''gravity'' ''0'', Sel ''gravity'' ''1'']
   \<and> children (cached_elements (buildCache doc_two_parents 0 []) ! 1) = []
   \<and> select (cached_doc (buildCache doc_two_parents 0 [])) (Sel ''gravity-parent'' ''0'') = [1, 3]"
  by code_simp

end
